theory Spec2Isabelle
  imports Main
begin

section \<open>JavaScript strings and numbers\<close>

text \<open>
  A JavaScript string is modelled as a \<^typ>\<open>string\<close>, one \<^typ>\<open>char\<close> for each code unit.
  \<open>toLowerCase\<close> is modelled on the ASCII letters, which are the only characters that can
  lower-case to the letters of \<open>low\<close>, \<open>medium\<close>, \<open>high\<close> and \<open>true\<close>.
\<close>

definition upperAZ :: string where
  "upperAZ = ''ABCDEFGHIJKLMNOPQRSTUVWXYZ''"

definition lowerAZ :: string where
  "lowerAZ = ''abcdefghijklmnopqrstuvwxyz''"

definition toLowerChar :: "char \<Rightarrow> char" where
  "toLowerChar c = (case map_of (zip upperAZ lowerAZ) c of Some l \<Rightarrow> l | None \<Rightarrow> c)"

definition toLowerCase :: "string \<Rightarrow> string" where
  "toLowerCase s = map toLowerChar s"

text \<open>\<open>s.startsWith(p)\<close>.\<close>

fun startsWith :: "string \<Rightarrow> string \<Rightarrow> bool" where
  "startsWith s [] = True"
| "startsWith [] (p # ps) = False"
| "startsWith (c # cs) (p # ps) = (c = p \<and> startsWith cs ps)"

text \<open>\<open>s.slice(0, n)\<close> for a non-negative \<open>n\<close>.\<close>

definition slice0 :: "nat \<Rightarrow> string \<Rightarrow> string" where
  "slice0 n s = take n s"

text \<open>The decimal text of a number inside a template literal.\<close>

definition digitChar :: "nat \<Rightarrow> char" where
  "digitChar d = ''0123456789'' ! d"

fun showNat :: "nat \<Rightarrow> string" where
  "showNat n = (if n < 10 then [digitChar n] else showNat (n div 10) @ [digitChar (n mod 10)])"

definition showInt :: "int \<Rightarrow> string" where
  "showInt i = (if i < 0 then CHR ''-'' # showNat (nat (- i)) else showNat (nat i))"

section \<open>Quality tier (index.js: qualityMap, rawQuality, qualityKey, bitrate)\<close>

text \<open>\<open>const qualityMap = { low: '64k', medium: '128k', high: '320k' }\<close>\<close>

definition qualityMap :: "string \<rightharpoonup> string" where
  "qualityMap = [''low'' \<mapsto> ''64k'', ''medium'' \<mapsto> ''128k'', ''high'' \<mapsto> ''320k'']"

text \<open>\<open>(req.params.quality || 'high').toLowerCase()\<close>: the empty string is falsy.\<close>

definition rawQuality :: "string \<Rightarrow> string" where
  "rawQuality q = toLowerCase (if q = [] then ''high'' else q)"

text \<open>\<open>['low','medium','high'].includes(rawQuality) ? rawQuality : 'high'\<close>\<close>

definition qualityKey :: "string \<Rightarrow> string" where
  "qualityKey q =
     (if rawQuality q \<in> set [''low'', ''medium'', ''high''] then rawQuality q else ''high'')"

text \<open>\<open>qualityMap[qualityKey]\<close>; \<open>None\<close> stands for \<open>undefined\<close>.\<close>

definition bitrate :: "string \<Rightarrow> string option" where
  "bitrate q = qualityMap (qualityKey q)"

section \<open>Source resolution (index.js: videoUrl)\<close>

text \<open>The character class \<open>[a-zA-Z0-9_-]\<close>, by the ranges of character codes it names.\<close>

definition idClass :: "char \<Rightarrow> bool" where
  "idClass c =
     (let n = (of_char c :: nat) in
        (97 \<le> n \<and> n \<le> 122) \<or> (65 \<le> n \<and> n \<le> 90) \<or> (48 \<le> n \<and> n \<le> 57)
        \<or> c = CHR ''_'' \<or> c = CHR ''-'')"

text \<open>
  \<open>/^[a-zA-Z0-9_-]{n}$/.test(s)\<close>: the anchored match consumes exactly \<open>n\<close> characters of the
  class and must then be at the end of the input.
\<close>

fun matchIdChars :: "nat \<Rightarrow> string \<Rightarrow> bool" where
  "matchIdChars 0 s = (s = [])"
| "matchIdChars (Suc n) [] = False"
| "matchIdChars (Suc n) (c # cs) = (idClass c \<and> matchIdChars n cs)"

definition isVideoId :: "string \<Rightarrow> bool" where
  "isVideoId s = matchIdChars 11 s"

definition watchPrefix :: string where
  "watchPrefix = ''https://www.youtube.com/watch?v=''"

definition videoUrl :: "string \<Rightarrow> string" where
  "videoUrl idParam =
     (if isVideoId idParam then watchPrefix @ idParam
      else (if startsWith idParam ''http'' then idParam else watchPrefix @ idParam))"

text \<open>The alphabet of the video identifiers, as the specification words it.\<close>

definition idAlphabet :: string where
  "idAlphabet = ''abcdefghijklmnopqrstuvwxyzABCDEFGHIJKLMNOPQRSTUVWXYZ0123456789_-''"

section \<open>The world outside the handler\<close>

text \<open>
  A JavaScript value as \<open>JSON.parse\<close> returns it. \<open>JNull\<close> is \<open>null\<close>; the members of
  an object are an association list read with \<^const>\<open>map_of\<close>.
\<close>

datatype jsval =
    JNull
  | JBool bool
  | JNum int
  | JStr string
  | JArr "jsval list"
  | JObj "(string \<times> jsval) list"

text \<open>What JavaScript takes for true in a condition.\<close>

fun truthy :: "jsval \<Rightarrow> bool" where
  "truthy JNull = False"
| "truthy (JBool b) = b"
| "truthy (JNum n) = (n \<noteq> 0)"
| "truthy (JStr s) = (s \<noteq> [])"
| "truthy (JArr xs) = True"
| "truthy (JObj kvs) = True"

text \<open>\<open>v.title\<close> on a value that is not \<open>null\<close>; \<open>None\<close> stands for \<open>undefined\<close>.\<close>

fun titleOf :: "jsval \<Rightarrow> jsval option" where
  "titleOf (JObj kvs) = map_of kvs ''title''"
| "titleOf v = None"

text \<open>
  How the metadata child process ends: the \<open>error\<close> event of a failed spawn, or the
  \<open>close\<close> event with the exit code (\<open>None\<close> is \<open>null\<close>, a process ended by a signal) and
  the text collected from its standard output.
\<close>

datatype meta_proc =
    SpawnError string
  | Closed "int option" string

text \<open>
  How one pipeline of extraction tool and transcoder ends, as the handler sees it when the
  transcoder's \<open>close\<close> event fires: the exit code, the two collected stderr texts, whether
  the transcoder left a file at the output path, and whether the request's \<open>close\<close> event
  (the caller went away) fired while the pipeline was running.
\<close>

record attemptOutcome =
  exitCode :: "int option"
  ytdlStderr :: string
  ffmpegStderr :: string
  wroteFile :: bool
  clientClosed :: bool

text \<open>How \<open>res.download\<close> ends: without an error, or with one, and then whether the
  response headers had been sent already.\<close>

datatype sendResult = SendOk | SendFailed bool

text \<open>
  Everything the handler reads from outside. \<open>JSON_parse\<close> (\<open>None\<close>: it throws),
  \<open>sanitize\<close> (the package sanitize-filename) and \<open>path_join\<close> belong to the platform and
  are parameters of the model. The outcome of a pipeline is given for each format selector.
  Every child process is taken to end: \<open>spawn\<close> returns a child whose failure to start
  arrives as its \<open>error\<close> event, and a transcoder that never closes, which would leave
  the handler waiting, is outside the model. With that nothing throws outside the inner
  \<open>try\<close> blocks, and the outer \<open>catch\<close> of the handler (status 500, \<open>Server error\<close>) is
  not reached.
\<close>

record world =
  JSON_parse :: "string \<Rightarrow> jsval option"
  sanitize :: "string \<Rightarrow> string"
  path_join :: "string \<Rightarrow> string \<Rightarrow> string"
  dirname :: string
  USE_COOKIES :: "string option"
  COOKIES_FILE_env :: "string option"
  now :: int
  metaProc :: meta_proc
  pipeline :: "string \<Rightarrow> attemptOutcome"
  sendOutcome :: sendResult

text \<open>The files that exist, by path.\<close>

type_synonym files = "string set"

definition existsSync :: "files \<Rightarrow> string \<Rightarrow> bool" where
  "existsSync fs p = (p \<in> fs)"

text \<open>\<open>fs.unlinkSync\<close> removes a file that exists and throws when there is no such
  file. A directory that refuses the removal is outside the model.\<close>

definition unlinkSync :: "files \<Rightarrow> string \<Rightarrow> string + files" where
  "unlinkSync fs p = (if p \<in> fs then Inr (fs - {p}) else Inl ''ENOENT'')"

text \<open>
  What the program does to the outside, in the order it does it. \<open>Send\<close> is
  \<open>res.status(n).send(body)\<close>, \<open>Download\<close> is the call of \<open>res.download\<close>, whose transfer
  ends as \<^const>\<open>sendOutcome\<close> says, and \<open>NotFound\<close> is the answer of the router, status 404,
  to a path that matches no route.
\<close>

datatype action =
    Spawn string "string list"
  | Kill string string
  | Unlink string
  | Send nat string
  | Download string "string option"
  | ScheduleDelete string nat
  | NotFound string

text \<open>The calls that start a response.\<close>

fun isResponse :: "action \<Rightarrow> bool" where
  "isResponse (Send st body) = True"
| "isResponse (Download p f) = True"
| "isResponse (NotFound p) = True"
| "isResponse a = False"

fun isKill :: "action \<Rightarrow> bool" where
  "isKill (Kill p sig) = True"
| "isKill a = False"

fun isSpawn :: "action \<Rightarrow> bool" where
  "isSpawn (Spawn c args) = True"
| "isSpawn a = False"

fun isDownload :: "action \<Rightarrow> bool" where
  "isDownload (Download p f) = True"
| "isDownload a = False"

fun isSchedule :: "action \<Rightarrow> bool" where
  "isSchedule (ScheduleDelete p ms) = True"
| "isSchedule a = False"

definition ONE_HOUR_MS :: nat where
  "ONE_HOUR_MS = 60 * 60 * 1000"

text \<open>\<open>path.join(__dirname, 'downloads')\<close>\<close>

definition DOWNLOAD_DIR :: "world \<Rightarrow> string" where
  "DOWNLOAD_DIR W = path_join W (dirname W) ''downloads''"

text \<open>\<open>scheduleDelete(filePath)\<close>: a timer that unlinks the file after one hour.\<close>

definition scheduleDelete :: "string \<Rightarrow> action list" where
  "scheduleDelete filePath = [ScheduleDelete filePath ONE_HOUR_MS]"

section \<open>Metadata (fetchMetadata and the title of the file name)\<close>

text \<open>The arguments of the metadata process.\<close>

definition metaArgs :: "string \<Rightarrow> string list" where
  "metaArgs url = [''-j'', ''--no-warnings'', url]"

text \<open>What the \<open>close\<close> listener of \<open>fetchMetadata\<close> resolves the promise to; it is the
  same in both revisions.\<close>

definition onMetaClose :: "world \<Rightarrow> int option \<Rightarrow> string \<Rightarrow> jsval" where
  "onMetaClose W code out =
     (if code = Some 0 \<and> out \<noteq> [] then
        (case JSON_parse W out of Some j \<Rightarrow> j | None \<Rightarrow> JNull)
      else JNull)"

text \<open>
  \<open>fetchMetadata\<close> of part_002 (and of the revision kept in src/Dockerfile): the \<open>error\<close>
  listener resolves to \<open>null\<close>. \<open>Inr v\<close> is a promise resolved to \<open>v\<close>, \<open>Inl e\<close> one
  rejected with \<open>e\<close>.
\<close>

definition fetchMetadata :: "world \<Rightarrow> string + jsval" where
  "fetchMetadata W =
     (case metaProc W of
        SpawnError e \<Rightarrow> Inr JNull
      | Closed code out \<Rightarrow> Inr (onMetaClose W code out))"

text \<open>\<open>fetchMetadata\<close> of index.js: the \<open>error\<close> listener rejects.\<close>

definition fetchMetadata_v1 :: "world \<Rightarrow> string + jsval" where
  "fetchMetadata_v1 W =
     (case metaProc W of
        SpawnError e \<Rightarrow> Inl e
      | Closed code out \<Rightarrow> Inr (onMetaClose W code out))"

text \<open>
  The \<open>try\<close> block around the metadata: \<open>if (meta && meta.title) safeTitle =
  sanitize(meta.title).slice(0,120)\<close>. A rejected promise and the exception that \<open>sanitize\<close>
  throws for a title that is not a string both end in the \<open>catch\<close>, which leaves
  \<open>safeTitle\<close> at \<open>null\<close> (\<open>None\<close>).
\<close>

definition titleFrom :: "world \<Rightarrow> string + jsval \<Rightarrow> string option" where
  "titleFrom W r =
     (case r of
        Inl e \<Rightarrow> None
      | Inr meta \<Rightarrow>
          (if truthy meta then
             (case titleOf meta of
                None \<Rightarrow> None
              | Some t \<Rightarrow>
                  (if truthy t then
                     (case t of JStr s \<Rightarrow> Some (slice0 120 (sanitize W s)) | _ \<Rightarrow> None)
                   else None))
           else None))"

definition safeTitle :: "world \<Rightarrow> string option" where
  "safeTitle W = titleFrom W (fetchMetadata W)"

definition safeTitle_v1 :: "world \<Rightarrow> string option" where
  "safeTitle_v1 W = titleFrom W (fetchMetadata_v1 W)"

text \<open>
  The failures of the metadata process that the specification lists: it cannot be spawned,
  it exits with a code other than zero, it prints nothing, or what it prints is not JSON.
\<close>

definition metaFailed :: "world \<Rightarrow> bool" where
  "metaFailed W =
     (case metaProc W of
        SpawnError e \<Rightarrow> True
      | Closed code out \<Rightarrow> code \<noteq> Some 0 \<or> out = [] \<or> JSON_parse W out = None)"

section \<open>File name (base, filename, filePath)\<close>

text \<open>
  \<open>safeTitle ? safeTitle : (/^[a-zA-Z0-9_-]{11}$/.test(idParam) ? idParam :
  sanitize(idParam).slice(0,40))\<close>: \<open>null\<close> and the empty string are both falsy.
\<close>

definition idBase :: "world \<Rightarrow> string \<Rightarrow> string" where
  "idBase W idParam = (if isVideoId idParam then idParam else slice0 40 (sanitize W idParam))"

definition base :: "world \<Rightarrow> string option \<Rightarrow> string \<Rightarrow> string" where
  "base W st idParam =
     (case st of
        None \<Rightarrow> idBase W idParam
      | Some t \<Rightarrow> (if t \<noteq> [] then t else idBase W idParam))"

text \<open>\<open>`${base}-${qualityKey}-${ts}.mp3`\<close>\<close>

definition filename :: "world \<Rightarrow> string option \<Rightarrow> string \<Rightarrow> string \<Rightarrow> string" where
  "filename W st quality idParam =
     base W st idParam @ ''-'' @ qualityKey quality @ ''-'' @ showInt (now W) @ ''.mp3''"

definition filePath :: "world \<Rightarrow> string option \<Rightarrow> string \<Rightarrow> string \<Rightarrow> string" where
  "filePath W st quality idParam = path_join W (DOWNLOAD_DIR W) (filename W st quality idParam)"

text \<open>
  Modelled from the spec: the package sanitize-filename is not part of the sources; the
  specification says of it that "sanitization strips characters unsafe for filesystem
  paths". This stand-in removes the characters that are reserved in file names and is used
  only where a theorem is evaluated at a concrete input.
\<close>

definition unsafeChars :: string where
  "unsafeChars = [CHR ''/'', CHR ''?'', CHR ''<'', CHR ''>'', CHR 0x5C, CHR '':'', CHR ''*'',
                  CHR ''|'', CHR 0x22]"

definition stripUnsafe :: "string \<Rightarrow> string" where
  "stripUnsafe s = filter (\<lambda>c. c \<notin> set unsafeChars) s"

section \<open>Arguments of the child processes\<close>

definition userAgent :: string where
  "userAgent = ''Mozilla/5.0 (Windows NT 10.0; Win64; x64) AppleWebKit/537.36 (KHTML, like Gecko) Chrome/120.0.0.0 Safari/537.36''"

text \<open>The literal \<open>commonYtdlArgs\<close> of part_002, before the cookies are added.\<close>

definition commonBase :: "string list" where
  "commonBase =
     [''--no-playlist'', ''--no-warnings'', ''--no-check-certificate'', ''--rm-cache-dir'',
      ''--geo-bypass'', ''--no-call-home'', ''--no-config'',
      ''--user-agent'', userAgent,
      ''--extractor-args'', ''youtube:player_client=web_html5'']"

text \<open>The literal \<open>commonYtdlArgs\<close> of the revision kept in src/Dockerfile.\<close>

definition commonBase_v2 :: "string list" where
  "commonBase_v2 =
     [''--no-playlist'', ''--no-warnings'', ''--no-check-certificate'', ''--rm-cache-dir'',
      ''--geo-bypass'', ''--no-call-home'', ''--no-config'',
      ''--user-agent'', userAgent]"

text \<open>\<open>x || d\<close> for an environment variable \<open>x\<close>: unset and empty are both falsy.\<close>

definition orElse :: "string option \<Rightarrow> string \<Rightarrow> string" where
  "orElse x d = (case x of None \<Rightarrow> d | Some s \<Rightarrow> (if s = [] then d else s))"

text \<open>\<open>(process.env.USE_COOKIES || '').toLowerCase() === 'true'\<close>\<close>

definition useCookies :: "world \<Rightarrow> bool" where
  "useCookies W = (toLowerCase (orElse (USE_COOKIES W) []) = ''true'')"

text \<open>\<open>process.env.COOKIES_FILE || './cookies.txt'\<close>\<close>

definition COOKIES_FILE :: "world \<Rightarrow> string" where
  "COOKIES_FILE W = orElse (COOKIES_FILE_env W) ''./cookies.txt''"

text \<open>\<open>path.join(__dirname, COOKIES_FILE || './cookies.txt')\<close>\<close>

definition cookiesPath :: "world \<Rightarrow> string" where
  "cookiesPath W = path_join W (dirname W) (orElse (Some (COOKIES_FILE W)) ''./cookies.txt'')"

text \<open>\<open>commonYtdlArgs\<close> of part_002 after
  \<open>if (useCookies && fs.existsSync(cookiesPath)) commonYtdlArgs.push('--cookies', COOKIES_FILE)\<close>.\<close>

definition commonYtdlArgs :: "world \<Rightarrow> files \<Rightarrow> string list" where
  "commonYtdlArgs W fs =
     (if useCookies W \<and> existsSync fs (cookiesPath W)
      then commonBase @ [''--cookies'', COOKIES_FILE W]
      else commonBase)"

text \<open>The same in the revision kept in src/Dockerfile, where \<open>cookiesFile\<close> is read from the
  environment in the handler and joined to \<open>__dirname\<close> inside the test.\<close>

definition cookiesFile_v2 :: "world \<Rightarrow> string" where
  "cookiesFile_v2 W = orElse (COOKIES_FILE_env W) ''./cookies.txt''"

definition commonYtdlArgs_v2 :: "world \<Rightarrow> files \<Rightarrow> string list" where
  "commonYtdlArgs_v2 W fs =
     (if useCookies W \<and> existsSync fs (path_join W (dirname W) (cookiesFile_v2 W))
      then commonBase_v2 @ [''--cookies'', cookiesFile_v2 W]
      else commonBase_v2)"

text \<open>\<open>['-f', fmt, '-o', '-'].concat(commonYtdlArgs, [videoUrl])\<close>\<close>

definition ytdlArgs :: "string \<Rightarrow> string list \<Rightarrow> string \<Rightarrow> string list" where
  "ytdlArgs fmt common url = [''-f'', fmt, ''-o'', ''-''] @ common @ [url]"

definition ffmpegArgs :: "string \<Rightarrow> string \<Rightarrow> string list" where
  "ffmpegArgs rate outFile =
     [''-hide_banner'', ''-loglevel'', ''warning'', ''-i'', ''pipe:0'', ''-vn'',
      ''-b:a'', rate, ''-f'', ''mp3'', outFile]"

definition formatsToTry :: "string list" where
  "formatsToTry =
     [''bestaudio[ext=m4a]/bestaudio'',
      ''bestaudio[protocol^=https]/bestaudio'',
      ''bestaudio[ext=webm]/bestaudio'',
      ''bestaudio'']"

section \<open>The format loop (part_002 and src/Dockerfile)\<close>

text \<open>
  The values a request has fixed before the loop starts. \<open>advise\<close> is the advice that the
  revision appends to the failure text; the two revisions word it differently.
\<close>

record ctx =
  url :: string
  rate :: string
  outPath :: string
  outName :: string
  common :: "string list"
  advise :: "string \<Rightarrow> string"

text \<open>The handler's progress: what it has done, the files that exist, and
  \<open>finalErrorText\<close>.\<close>

record run =
  trace :: "action list"
  disk :: files
  finalErrorText :: string

text \<open>
  \<open>res.headersSent\<close>: the headers of a response have gone out. \<open>res.status(n).send\<close> and
  the router's 404 send them; \<open>res.download\<close> has sent them when the transfer ended without
  an error, and after a failed transfer only when the error came after the headers.
\<close>

fun sentHeaders :: "world \<Rightarrow> action \<Rightarrow> bool" where
  "sentHeaders W (Send st body) = True"
| "sentHeaders W (Download p f) =
     (case sendOutcome W of SendOk \<Rightarrow> True | SendFailed sent \<Rightarrow> sent)"
| "sentHeaders W (NotFound p) = True"
| "sentHeaders W a = False"

definition headersSent :: "world \<Rightarrow> action list \<Rightarrow> bool" where
  "headersSent W t = list_ex (sentHeaders W) t"

definition spawnPipeline :: "ctx \<Rightarrow> string \<Rightarrow> action list" where
  "spawnPipeline c fmt =
     [Spawn ''yt-dlp'' (ytdlArgs fmt (common c) (url c)),
      Spawn ''ffmpeg'' (ffmpegArgs (rate c) (outPath c))]"

text \<open>The files after the transcoder has closed.\<close>

definition afterFfmpeg :: "attemptOutcome \<Rightarrow> string \<Rightarrow> files \<Rightarrow> files" where
  "afterFfmpeg oc p fs = (if wroteFile oc then insert p fs else fs)"

text \<open>\<open>attemptResult.code === 0 && fs.existsSync(filePath)\<close>\<close>

definition attemptOk :: "int option \<Rightarrow> files \<Rightarrow> string \<Rightarrow> bool" where
  "attemptOk code fs p = (code = Some 0 \<and> existsSync fs p)"

text \<open>\<open>try { if (fs.existsSync(filePath)) fs.unlinkSync(filePath); } catch(e){}\<close>\<close>

definition removePartial :: "files \<Rightarrow> string \<Rightarrow> action list \<times> files" where
  "removePartial fs p =
     (if existsSync fs p then
        (case unlinkSync fs p of
           Inr fs' \<Rightarrow> ([Unlink p], fs')
         | Inl e \<Rightarrow> ([Unlink p], fs))
      else ([], fs))"

text \<open>\<open>x || '(none)'\<close> and \<open>${code}\<close>.\<close>

definition orNone :: "string \<Rightarrow> string" where
  "orNone s = (if s = [] then ''(none)'' else s)"

definition showCode :: "int option \<Rightarrow> string" where
  "showCode code = (case code of None \<Rightarrow> ''null'' | Some n \<Rightarrow> showInt n)"

text \<open>The text that a failed attempt adds to \<open>finalErrorText\<close>.\<close>

definition attemptSection :: "string \<Rightarrow> attemptOutcome \<Rightarrow> string" where
  "attemptSection fmt oc =
     ''\<newline>\<newline>--- Attempt format='' @ fmt @ '' ---\<newline>\<newline>yt-dlp stderr:\<newline>'' @ orNone (ytdlStderr oc)
     @ ''\<newline>\<newline>ffmpeg stderr:\<newline>'' @ orNone (ffmpegStderr oc)
     @ ''\<newline>\<newline>ffmpeg exit code: '' @ showCode (exitCode oc) @ ''\<newline>''"

text \<open>\<open>res.download(filePath, filename, err => { if (!err) scheduleDelete(filePath); })\<close>\<close>

definition serve :: "world \<Rightarrow> string \<Rightarrow> string \<Rightarrow> action list" where
  "serve W p name =
     Download p (Some name)
     # (case sendOutcome W of SendOk \<Rightarrow> scheduleDelete p | SendFailed h \<Rightarrow> [])"

text \<open>
  One turn of the loop body. The first component says whether the handler has returned
  from inside the loop.
\<close>

definition attempt :: "world \<Rightarrow> ctx \<Rightarrow> string \<Rightarrow> run \<Rightarrow> bool \<times> run" where
  "attempt W c fmt r =
     (let oc = pipeline W fmt;
          t1 = trace r @ spawnPipeline c fmt;
          fs1 = afterFfmpeg oc (outPath c) (disk r)
      in if attemptOk (exitCode oc) fs1 (outPath c) then
           (True, r\<lparr>trace := t1 @ serve W (outPath c) (outName c), disk := fs1\<rparr>)
         else
           (case removePartial fs1 (outPath c) of
              (del, fs2) \<Rightarrow>
                (False, r\<lparr>trace := t1 @ del, disk := fs2,
                          finalErrorText := finalErrorText r @ attemptSection fmt oc\<rparr>)))"

text \<open>The code after the loop: the response when no attempt has returned.\<close>

definition failureBody :: "ctx \<Rightarrow> string \<Rightarrow> string" where
  "failureBody c txt = ''Conversion failed. Debug info:\<newline>'' @ txt @ ''\<newline>'' @ advise c txt"

definition afterLoop :: "world \<Rightarrow> ctx \<Rightarrow> run \<Rightarrow> run" where
  "afterLoop W c r =
     (if \<not> headersSent W (trace r)
      then r\<lparr>trace := trace r @ [Send 500 (failureBody c (finalErrorText r))]\<rparr>
      else r)"

text \<open>\<open>for (const fmt of formatsToTry) { if (converted) break; ... }\<close> and what follows it.\<close>

fun formatsLoop :: "world \<Rightarrow> ctx \<Rightarrow> bool \<Rightarrow> string list \<Rightarrow> run \<Rightarrow> run" where
  "formatsLoop W c converted [] r = afterLoop W c r"
| "formatsLoop W c converted (fmt # fmts) r =
     (if converted then afterLoop W c r
      else (case attempt W c fmt r of
              (True, r') \<Rightarrow> r'
            | (False, r') \<Rightarrow> formatsLoop W c False fmts r'))"

text \<open>Reading a trace: the selectors that were handed to the extraction tool, and the
  transcoders that were started.\<close>

fun attemptedFormats :: "action list \<Rightarrow> string list" where
  "attemptedFormats [] = []"
| "attemptedFormats (Spawn cmd (a # fmt # rest) # as) =
     (if cmd = ''yt-dlp'' \<and> a = ''-f'' then fmt # attemptedFormats as else attemptedFormats as)"
| "attemptedFormats (a # as) = attemptedFormats as"

text \<open>The argument lists of the extraction processes that were started for a selector.\<close>

fun extractionArgs :: "action list \<Rightarrow> string list list" where
  "extractionArgs [] = []"
| "extractionArgs (Spawn cmd (a # fmt # rest) # as) =
     (if cmd = ''yt-dlp'' \<and> a = ''-f'' then (a # fmt # rest) # extractionArgs as
      else extractionArgs as)"
| "extractionArgs (a # as) = extractionArgs as"

fun isTranscoder :: "action \<Rightarrow> bool" where
  "isTranscoder (Spawn cmd args) = (cmd = ''ffmpeg'')"
| "isTranscoder a = False"

text \<open>A pipeline that ends with exit code zero and a file at the output path.\<close>

definition pipelineOk :: "attemptOutcome \<Rightarrow> bool" where
  "pipelineOk oc = (exitCode oc = Some 0 \<and> wroteFile oc)"

text \<open>How many selectors at the head of a list fail before one converts, and the text
  that the failed attempts of a list of selectors add to \<open>finalErrorText\<close>.\<close>

definition failuresBeforeSuccess :: "world \<Rightarrow> string list \<Rightarrow> nat" where
  "failuresBeforeSuccess W fmts = length (takeWhile (\<lambda>f. \<not> pipelineOk (pipeline W f)) fmts)"

definition attemptSections :: "world \<Rightarrow> string list \<Rightarrow> string" where
  "attemptSections W fmts = concat (map (\<lambda>f. attemptSection f (pipeline W f)) fmts)"

section \<open>Advice appended to the failure text\<close>

text \<open>\<open>/pat/i.test(text)\<close> for a pattern without operators: the text contains the pattern
  somewhere, letter case ignored.\<close>

fun searchCI :: "string \<Rightarrow> string \<Rightarrow> bool" where
  "searchCI pat [] = (pat = [])"
| "searchCI pat (c # cs) =
     (startsWith (toLowerCase (c # cs)) (toLowerCase pat) \<or> searchCI pat cs)"

text \<open>The dash of the advice texts, as its three UTF-8 bytes.\<close>

definition emDash :: string where
  "emDash = [CHR 0xE2, CHR 0x80, CHR 0x94]"

text \<open>The advice of part_002.\<close>

definition advice :: "string \<Rightarrow> string" where
  "advice txt =
     (if searchCI ''HTTP Error 403'' txt \<or> searchCI ''Forbidden'' txt
      then ''\<newline>Detected 403 Forbidden '' @ emDash
           @ '' try cookies (USE_COOKIES=true + COOKIES_CONTENT secret) or an authenticated account.''
      else [])
     @ (if searchCI ''Requested format is not available'' txt
        then ''\<newline>Requested format not available '' @ emDash @ '' multiple fallbacks attempted.''
        else [])"

text \<open>The advice of the revision kept in src/Dockerfile.\<close>

definition advice_v2 :: "string \<Rightarrow> string" where
  "advice_v2 txt =
     (if searchCI ''HTTP Error 403'' txt \<or> searchCI ''Forbidden'' txt
      then ''\<newline>Detected 403 Forbidden '' @ emDash
           @ '' video may be region/age-restricted. Try cookies (USE_COOKIES=true + COOKIES_FILE=./cookies.txt) or use an authenticated account.''
      else [])
     @ (if searchCI ''Requested format is not available'' txt
        then ''\<newline>Requested format not available '' @ emDash @ '' we tried multiple fallbacks.''
        else [])"

section \<open>The route handler \<open>/:quality/id=:id\<close>\<close>

text \<open>\<open>qualityMap[qualityKey]\<close> as it is written into the transcoder's arguments.\<close>

definition bitrateArg :: "string \<Rightarrow> string" where
  "bitrateArg quality = (case bitrate quality of Some b \<Rightarrow> b | None \<Rightarrow> ''undefined'')"

text \<open>What the handler of part_002 has computed when it reaches the loop.\<close>

definition requestCtx :: "world \<Rightarrow> files \<Rightarrow> string \<Rightarrow> string \<Rightarrow> ctx" where
  "requestCtx W fs quality idParam =
     \<lparr>url = videoUrl idParam,
      rate = bitrateArg quality,
      outPath = filePath W (safeTitle W) quality idParam,
      outName = filename W (safeTitle W) quality idParam,
      common = commonYtdlArgs W fs,
      advise = advice\<rparr>"

text \<open>The same for the revision kept in src/Dockerfile.\<close>

definition requestCtx_v2 :: "world \<Rightarrow> files \<Rightarrow> string \<Rightarrow> string \<Rightarrow> ctx" where
  "requestCtx_v2 W fs quality idParam =
     \<lparr>url = videoUrl idParam,
      rate = bitrateArg quality,
      outPath = filePath W (safeTitle W) quality idParam,
      outName = filename W (safeTitle W) quality idParam,
      common = commonYtdlArgs_v2 W fs,
      advise = advice_v2\<rparr>"

text \<open>
  The handler of the two revisions with the format loop, which differ in the context only:
  the guard on the identifier, the metadata process, the test for a file that exists
  already, and the loop. No listener is registered for the request's \<open>close\<close> event.
  The handler is a function of its parameters; which parameters the router hands to it is
  the matter of \<open>matchRoute\<close> below.
\<close>

definition routeWith :: "ctx \<Rightarrow> world \<Rightarrow> files \<Rightarrow> string \<Rightarrow> run" where
  "routeWith c W fs idParam =
     (if idParam = [] then \<lparr>trace = [Send 400 ''Missing id''], disk = fs, finalErrorText = []\<rparr>
      else
        (let r0 = \<lparr>trace = [Spawn ''yt-dlp'' (metaArgs (url c))], disk = fs,
                   finalErrorText = []\<rparr>
         in if existsSync fs (outPath c)
            then r0\<lparr>trace := trace r0 @ serve W (outPath c) (outName c)\<rparr>
            else formatsLoop W c False formatsToTry r0))"

definition route :: "world \<Rightarrow> files \<Rightarrow> string \<Rightarrow> string \<Rightarrow> run" where
  "route W fs quality idParam = routeWith (requestCtx W fs quality idParam) W fs idParam"

definition route_v2 :: "world \<Rightarrow> files \<Rightarrow> string \<Rightarrow> string \<Rightarrow> run" where
  "route_v2 W fs quality idParam = routeWith (requestCtx_v2 W fs quality idParam) W fs idParam"

section \<open>The handler of index.js (one attempt, listeners)\<close>

text \<open>The listener \<open>req.on('close', ...)\<close>: both children are killed.\<close>

definition onReqClose_v1 :: "action list" where
  "onReqClose_v1 = [Kill ''yt-dlp'' ''SIGKILL'', Kill ''ffmpeg'' ''SIGKILL'']"

text \<open>The listener \<open>ffmpeg.on('close', code => ...)\<close>.\<close>

definition onFfmpegClose_v1 :: "world \<Rightarrow> string \<Rightarrow> string \<Rightarrow> int option \<Rightarrow> run \<Rightarrow> run" where
  "onFfmpegClose_v1 W p name code r =
     (if attemptOk code (disk r) p then
        r\<lparr>trace := trace r @ Download p (Some name)
                   # (case sendOutcome W of
                        SendOk \<Rightarrow> scheduleDelete p
                      | SendFailed sent \<Rightarrow> (if \<not> sent then [Send 500 ''Error sending file''] else []))\<rparr>
      else
        (case removePartial (disk r) p of
           (del, fs') \<Rightarrow>
             r\<lparr>trace := trace r
                         @ (if \<not> headersSent W (trace r) then [Send 500 ''Conversion failed'']
                            else [])
                         @ del,
               disk := fs'\<rparr>))"

text \<open>
  The handler of index.js. It spawns one pipeline with the selector \<open>bestaudio\<close> and
  registers its listeners; the request's \<open>close\<close> event, when it fires while the pipeline
  runs, comes before the transcoder's \<open>close\<close> event. As above, the guard on the
  identifier is part of the handler, and \<open>matchRoute\<close> says which identifiers reach it.
\<close>

definition route_v1 :: "world \<Rightarrow> files \<Rightarrow> string \<Rightarrow> string \<Rightarrow> run" where
  "route_v1 W fs quality idParam =
     (if idParam = [] then \<lparr>trace = [Send 400 ''Missing id''], disk = fs, finalErrorText = []\<rparr>
      else
        (let vurl = videoUrl idParam;
             name = filename W (safeTitle_v1 W) quality idParam;
             p = filePath W (safeTitle_v1 W) quality idParam;
             r0 = \<lparr>trace = [Spawn ''yt-dlp'' (metaArgs vurl)], disk = fs, finalErrorText = []\<rparr>
         in if existsSync fs p then r0\<lparr>trace := trace r0 @ [Download p None]\<rparr>
            else
              (let oc = pipeline W ''bestaudio'';
                   t1 = trace r0
                        @ [Spawn ''yt-dlp'' [''-f'', ''bestaudio'', ''-o'', ''-'', vurl],
                           Spawn ''ffmpeg'' (ffmpegArgs (bitrateArg quality) p)];
                   t2 = t1 @ (if clientClosed oc then onReqClose_v1 else [])
               in onFfmpegClose_v1 W p name (exitCode oc)
                    (r0\<lparr>trace := t2, disk := afterFfmpeg oc p fs\<rparr>))))"

section \<open>The router in front of the handlers\<close>

text \<open>
  \<open>app.get('/:quality/id=:id', ...)\<close>: how Express matches the path of a request against
  the pattern. A named parameter stands for one character or more, none of them \<open>/\<close>; the
  literal \<open>id=\<close> is compared without regard to letter case; one \<open>/\<close> at the end of the
  path is ignored. The result is the pair of \<open>req.params.quality\<close> and \<open>req.params.id\<close>,
  or \<open>None\<close> when the path does not match. (Express hands the parameters over
  percent-decoded; decoding is left out, it makes no parameter empty.)
\<close>

definition notSlash :: "char \<Rightarrow> bool" where
  "notSlash x = (x \<noteq> CHR ''/'')"

definition dropTrailingSlash :: "string \<Rightarrow> string" where
  "dropTrailingSlash s = (if s \<noteq> [] \<and> last s = CHR ''/'' then butlast s else s)"

definition matchRoute :: "string \<Rightarrow> (string \<times> string) option" where
  "matchRoute path =
     (case path of
        [] \<Rightarrow> None
      | c # rest \<Rightarrow>
          (if c \<noteq> CHR ''/'' then None
           else
             (let quality = takeWhile notSlash rest;
                  tl = drop 1 (dropWhile notSlash rest);
                  ident = dropTrailingSlash (drop 3 tl)
              in if quality = [] then None
                 else if length rest = length quality then None
                 else if toLowerCase (take 3 tl) = ''id='' \<and> ident \<noteq> [] \<and> list_all notSlash ident
                 then Some (quality, ident)
                 else None)))"

text \<open>\<open>app.get('/', ...)\<close>\<close>

definition rootInfo :: string where
  "rootInfo = ''yt-music-download-api running. Example: /High/id=dQw4w9WgXcQ''"

text \<open>
  A GET request as the application answers it: the handler when the path matches its
  pattern, the information text for the path \<open>/\<close>, and the router's 404 otherwise.
\<close>

definition dispatchTo ::
  "(string \<Rightarrow> string \<Rightarrow> run) \<Rightarrow> files \<Rightarrow> string \<Rightarrow> run" where
  "dispatchTo handler fs path =
     (case matchRoute path of
        Some (quality, ident) \<Rightarrow> handler quality ident
      | None \<Rightarrow>
          (if path = ''/'' then \<lparr>trace = [Send 200 rootInfo], disk = fs, finalErrorText = []\<rparr>
           else \<lparr>trace = [NotFound path], disk = fs, finalErrorText = []\<rparr>))"

definition dispatch :: "world \<Rightarrow> files \<Rightarrow> string \<Rightarrow> run" where
  "dispatch W fs path = dispatchTo (route W fs) fs path"

definition dispatch_v2 :: "world \<Rightarrow> files \<Rightarrow> string \<Rightarrow> run" where
  "dispatch_v2 W fs path = dispatchTo (route_v2 W fs) fs path"

definition dispatch_v1 :: "world \<Rightarrow> files \<Rightarrow> string \<Rightarrow> run" where
  "dispatch_v1 W fs path = dispatchTo (route_v1 W fs) fs path"

section \<open>Concrete worlds\<close>

text \<open>A stand-in for \<open>path.join\<close> on two plain segments, used only where a theorem is
  evaluated at a concrete input.\<close>

definition joinPaths :: "string \<Rightarrow> string \<Rightarrow> string" where
  "joinPaths d f = d @ ''/'' @ f"

definition failedOutcome :: attemptOutcome where
  "failedOutcome =
     \<lparr>exitCode = Some 1, ytdlStderr = ''ERROR: Requested format is not available'',
      ffmpegStderr = [], wroteFile = False, clientClosed = False\<rparr>"

definition okOutcome :: attemptOutcome where
  "okOutcome =
     \<lparr>exitCode = Some 0, ytdlStderr = [], ffmpegStderr = [], wroteFile = True,
      clientClosed = False\<rparr>"

text \<open>The third selector succeeds, the others fail.\<close>

definition thirdSucceeds :: "string \<Rightarrow> attemptOutcome" where
  "thirdSucceeds fmt = (if fmt = ''bestaudio[ext=webm]/bestaudio'' then okOutcome else failedOutcome)"

text \<open>Every selector fails; the caller goes away during the first attempt.\<close>

definition closedDuringFirst :: "string \<Rightarrow> attemptOutcome" where
  "closedDuringFirst fmt =
     (if fmt = ''bestaudio[ext=m4a]/bestaudio'' then failedOutcome\<lparr>clientClosed := True\<rparr>
      else failedOutcome)"

definition noJson :: "string \<Rightarrow> jsval option" where
  "noJson out = None"

text \<open>A parser that answers with a record whose title is the output itself.\<close>

definition titleJson :: "string \<Rightarrow> jsval option" where
  "titleJson out = Some (JObj [(''title'', JStr out)])"

text \<open>A world in which the metadata process exits with code 1 and the third selector
  converts.\<close>

definition exampleWorld :: world where
  "exampleWorld =
     \<lparr>JSON_parse = noJson, sanitize = stripUnsafe, path_join = joinPaths, dirname = ''/app'',
      USE_COOKIES = None, COOKIES_FILE_env = None, now = 1700000000000,
      metaProc = Closed (Some 1) [], pipeline = thirdSucceeds, sendOutcome = SendOk\<rparr>"

text \<open>The request of the specification's scenario.\<close>

definition exampleId :: string where
  "exampleId = ''dQw4w9WgXcQ''"

definition examplePath :: string where
  "examplePath = ''/app/downloads/dQw4w9WgXcQ-high-1700000000000.mp3''"

text \<open>The caller goes away during the first attempt, and every selector fails.\<close>

definition disconnectWorld :: world where
  "disconnectWorld = exampleWorld\<lparr>pipeline := closedDuringFirst\<rparr>"

text \<open>For index.js: the caller goes away while the only pipeline runs, the children are
  killed, and the transcoder closes without an exit code, a partial file left behind.\<close>

definition killedOutcome :: attemptOutcome where
  "killedOutcome =
     \<lparr>exitCode = None, ytdlStderr = [], ffmpegStderr = [], wroteFile = True,
      clientClosed = True\<rparr>"

definition killedPipeline :: "string \<Rightarrow> attemptOutcome" where
  "killedPipeline fmt = killedOutcome"

definition disconnectWorld_v1 :: world where
  "disconnectWorld_v1 = exampleWorld\<lparr>pipeline := killedPipeline\<rparr>"

text \<open>The extraction tool reports a video whose title is a single question mark.\<close>

definition questionWorld :: world where
  "questionWorld = exampleWorld\<lparr>JSON_parse := titleJson, metaProc := Closed (Some 0) ''?''\<rparr>"

text \<open>The metadata process cannot be started.\<close>

definition spawnFailWorld :: world where
  "spawnFailWorld = exampleWorld\<lparr>metaProc := SpawnError ''spawn yt-dlp ENOENT''\<rparr>"

text \<open>The transfer of the file to the caller fails before the headers are sent.\<close>

definition sendFailsWorld :: world where
  "sendFailsWorld = exampleWorld\<lparr>sendOutcome := SendFailed False\<rparr>"

text \<open>Every selector fails.\<close>

definition allFail :: "string \<Rightarrow> attemptOutcome" where
  "allFail fmt = failedOutcome"

definition allFailWorld :: world where
  "allFailWorld = exampleWorld\<lparr>pipeline := allFail\<rparr>"

text \<open>Cookies are switched on, with the default cookies file.\<close>

definition cookieWorld :: world where
  "cookieWorld = exampleWorld\<lparr>USE_COOKIES := Some ''TRUE''\<rparr>"

section \<open>Properties of the string helpers\<close>

lemma toLowerChar_idem: "toLowerChar (toLowerChar c) = toLowerChar c"
  unfolding toLowerChar_def upperAZ_def lowerAZ_def
  by (simp split: option.splits if_splits)

lemma toLowerCase_idem: "toLowerCase (toLowerCase s) = toLowerCase s"
  by (simp add: toLowerCase_def toLowerChar_idem)

lemma startsWith_take: "startsWith s p = (take (length p) s = p)"
  by (induction s p rule: startsWith.induct) auto

lemma matchIdChars_iff: "matchIdChars n s = (length s = n \<and> list_all idClass s)"
  by (induction n s rule: matchIdChars.induct) auto

declare showNat.simps [simp del]

lemma range_mem: "lo \<le> n \<Longrightarrow> n \<le> hi \<Longrightarrow> n \<in> set [lo..<Suc hi]"
  by auto

lemma inj_of_char_nat: "inj (of_char :: char \<Rightarrow> nat)"
  by (rule injI) simp

lemma idClass_alphabet1: "c \<in> set idAlphabet \<Longrightarrow> idClass c"
  unfolding idAlphabet_def
  by (auto simp: idClass_def)

lemma idClass_alphabet2: "idClass c \<Longrightarrow> c \<in> set idAlphabet"
proof -
  assume a: "idClass c"
  define n where "n = (of_char c :: nat)"
  from a consider "n \<in> set [97..<Suc 122]" | "n \<in> set [65..<Suc 90]"
    | "n \<in> set [48..<Suc 57]" | "c = CHR ''_''" | "c = CHR ''-''"
    unfolding idClass_def Let_def n_def[symmetric] using range_mem by blast
  then have "n \<in> of_char ` set idAlphabet"
  proof cases
    case 1
    then show ?thesis unfolding idAlphabet_def by (simp add: upt_rec) (elim disjE; simp)
  next
    case 2
    then show ?thesis unfolding idAlphabet_def by (simp add: upt_rec) (elim disjE; simp)
  next
    case 3
    then show ?thesis unfolding idAlphabet_def by (simp add: upt_rec) (elim disjE; simp)
  next
    case 4
    then show ?thesis unfolding idAlphabet_def n_def by simp
  next
    case 5
    then show ?thesis unfolding idAlphabet_def n_def by simp
  qed
  then show ?thesis
    unfolding n_def using inj_image_mem_iff [OF inj_of_char_nat] by blast
qed

lemma idClass_alphabet: "idClass c = (c \<in> set idAlphabet)"
  using idClass_alphabet1 idClass_alphabet2 by blast

lemma isVideoId_iff: "isVideoId s = (length s = 11 \<and> set s \<subseteq> set idAlphabet)"
  unfolding isVideoId_def matchIdChars_iff
  by (auto simp: list_all_iff idClass_alphabet)

lemma toLowerCase_lits:
  "toLowerCase ''high'' = ''high''" "toLowerCase ''true'' = ''true''"
  by (simp_all add: toLowerCase_def toLowerChar_def upperAZ_def lowerAZ_def)

lemma rawQuality_cases:
  "rawQuality q = (if q = [] then ''high'' else toLowerCase q)"
  by (simp add: rawQuality_def toLowerCase_lits)

lemma qualityKey_cases:
  "qualityKey q =
     (if toLowerCase q = ''low'' then ''low''
      else if toLowerCase q = ''medium'' then ''medium'' else ''high'')"
  unfolding qualityKey_def rawQuality_cases
  by (cases "q = []") (auto simp: toLowerCase_def)

lemma startsWith_http: "startsWith s ''http'' = (take 4 s = ''http'')"
proof -
  have "length ''http'' = 4" by simp
  then show ?thesis by (metis startsWith_take)
qed

section \<open>Quality tier\<close>

text \<open>
  C4. For every request the quality segment is read without regard to letter case:
  \<open>low\<close> gives the bitrate 64k, \<open>medium\<close> gives 128k, \<open>high\<close> gives 320k, and every other
  input, the empty one included, gives the tier \<open>high\<close> with 320k. The bitrate is always
  one of the three values, and the input and its lower-case form get the same bitrate.
\<close>

theorem quality_resolution:
  "qualityKey q =
     (if toLowerCase q = ''low'' then ''low''
      else if toLowerCase q = ''medium'' then ''medium'' else ''high'')
   \<and> bitrate q =
     Some (if toLowerCase q = ''low'' then ''64k''
           else if toLowerCase q = ''medium'' then ''128k'' else ''320k'')
   \<and> bitrate q = bitrate (toLowerCase q)"
proof -
  have b: "\<And>q. bitrate q =
     Some (if toLowerCase q = ''low'' then ''64k''
           else if toLowerCase q = ''medium'' then ''128k'' else ''320k'')"
    unfolding bitrate_def qualityKey_cases by (simp add: qualityMap_def)
  show ?thesis
    using qualityKey_cases [of q] b [of q] b [of "toLowerCase q"]
    by (simp add: toLowerCase_idem)
qed

section \<open>Source resolution\<close>

text \<open>
  C5. The resolved address is a function of the identifier alone. An identifier of exactly
  11 characters, all of them letters, digits, \<open>_\<close> or \<open>-\<close>, is put into
  \<open>https://www.youtube.com/watch?v=<id>\<close>; any other identifier that starts with \<open>http\<close>
  is used as it is; any other identifier is put into the same address. The identifier
  \<open>dQw4w9WgXcQ\<close> resolves to \<open>https://www.youtube.com/watch?v=dQw4w9WgXcQ\<close>.
\<close>

theorem source_resolution:
  "videoUrl s =
     (if length s = 11 \<and> set s \<subseteq> set idAlphabet then ''https://www.youtube.com/watch?v='' @ s
      else if take 4 s = ''http'' then s
      else ''https://www.youtube.com/watch?v='' @ s)
   \<and> videoUrl ''dQw4w9WgXcQ'' = ''https://www.youtube.com/watch?v=dQw4w9WgXcQ''"
proof -
  have g: "\<And>s. videoUrl s =
     (if length s = 11 \<and> set s \<subseteq> set idAlphabet then ''https://www.youtube.com/watch?v='' @ s
      else if take 4 s = ''http'' then s
      else ''https://www.youtube.com/watch?v='' @ s)"
    unfolding videoUrl_def isVideoId_iff watchPrefix_def startsWith_http by simp
  have "videoUrl ''dQw4w9WgXcQ'' = ''https://www.youtube.com/watch?v=dQw4w9WgXcQ''"
    unfolding g by (simp add: idAlphabet_def)
  with g [of s] show ?thesis by blast
qed

section \<open>The loop, one attempt at a time\<close>

lemma attemptedFormats_append:
  "attemptedFormats (xs @ ys) = attemptedFormats xs @ attemptedFormats ys"
  by (induction xs rule: attemptedFormats.induct) auto

lemma attemptedFormats_pipeline [simp]:
  "attemptedFormats (spawnPipeline c fmt) = [fmt]"
  by (simp add: spawnPipeline_def ytdlArgs_def ffmpegArgs_def)

lemma attemptedFormats_serve [simp]: "attemptedFormats (serve W p name) = []"
  by (simp add: serve_def scheduleDelete_def split: sendResult.splits)

lemma removePartial_eq:
  "removePartial fs p = ((if p \<in> fs then [Unlink p] else []), fs - {p})"
  by (simp add: removePartial_def existsSync_def unlinkSync_def)

lemma attempt_ok:
  assumes "outPath c \<notin> disk r" "pipelineOk (pipeline W fmt)"
  shows "attempt W c fmt r =
           (True, r\<lparr>trace := trace r @ spawnPipeline c fmt @ serve W (outPath c) (outName c),
                    disk := insert (outPath c) (disk r)\<rparr>)"
  using assms
  by (simp add: attempt_def Let_def attemptOk_def afterFfmpeg_def existsSync_def pipelineOk_def)

lemma attempt_failed:
  assumes "outPath c \<notin> disk r" "\<not> pipelineOk (pipeline W fmt)"
  shows "attempt W c fmt r =
           (False, r\<lparr>trace := trace r @ spawnPipeline c fmt
                              @ (if wroteFile (pipeline W fmt) then [Unlink (outPath c)] else []),
                     disk := disk r,
                     finalErrorText := finalErrorText r @ attemptSection fmt (pipeline W fmt)\<rparr>)"
  using assms
  by (auto simp: attempt_def Let_def attemptOk_def afterFfmpeg_def existsSync_def pipelineOk_def
      removePartial_eq)


lemma sentHeaders_isResponse: "sentHeaders W a \<Longrightarrow> isResponse a"
  by (cases a) simp_all

lemma no_response_no_headers: "filter isResponse t = [] \<Longrightarrow> \<not> headersSent W t"
  using sentHeaders_isResponse by (auto simp: headersSent_def list_ex_iff filter_empty_conv)

lemma responses_pipeline [simp]: "filter isResponse (spawnPipeline c fmt) = []"
  by (simp add: spawnPipeline_def)

lemma responses_serve [simp]:
  "filter isResponse (serve W p name) = [Download p (Some name)]"
  by (simp add: serve_def scheduleDelete_def split: sendResult.splits)

lemma transcoders_pipeline [simp]:
  "filter isTranscoder (spawnPipeline c fmt) = [Spawn ''ffmpeg'' (ffmpegArgs (rate c) (outPath c))]"
  by (simp add: spawnPipeline_def)

lemma transcoders_serve [simp]: "filter isTranscoder (serve W p name) = []"
  by (simp add: serve_def scheduleDelete_def split: sendResult.splits)

lemma afterLoop_trace:
  "trace (afterLoop W c r) =
     trace r
     @ (if headersSent W (trace r) then [] else [Send 500 (failureBody c (finalErrorText r))])"
  by (simp add: afterLoop_def)

lemma loop_attempted:
  assumes "outPath c \<notin> disk r"
  shows "attemptedFormats (trace (formatsLoop W c False fmts r)) =
           attemptedFormats (trace r) @ take (Suc (failuresBeforeSuccess W fmts)) fmts"
  using assms
proof (induction fmts arbitrary: r)
  case Nil
  then show ?case by (simp add: afterLoop_trace attemptedFormats_append)
next
  case (Cons fmt fmts)
  show ?case
  proof (cases "pipelineOk (pipeline W fmt)")
    case True
    then show ?thesis
      using Cons.prems
      by (simp add: attempt_ok attemptedFormats_append failuresBeforeSuccess_def)
  next
    case False
    let ?r' = "snd (attempt W c fmt r)"
    have d: "outPath c \<notin> disk ?r'" using Cons.prems False by (simp add: attempt_failed)
    have "attemptedFormats (trace ?r') = attemptedFormats (trace r) @ [fmt]"
      using Cons.prems False by (simp add: attempt_failed attemptedFormats_append)
    moreover have "formatsLoop W c False (fmt # fmts) r = formatsLoop W c False fmts ?r'"
      using Cons.prems False by (simp add: attempt_failed)
    ultimately show ?thesis
      using Cons.IH [OF d] False by (simp add: failuresBeforeSuccess_def)
  qed
qed

lemma loop_transcoders:
  assumes "outPath c \<notin> disk r"
  shows "filter isTranscoder (trace (formatsLoop W c False fmts r)) =
           filter isTranscoder (trace r)
           @ replicate (length (take (Suc (failuresBeforeSuccess W fmts)) fmts))
               (Spawn ''ffmpeg'' (ffmpegArgs (rate c) (outPath c)))"
  using assms
proof (induction fmts arbitrary: r)
  case Nil
  then show ?case by (simp add: afterLoop_trace)
next
  case (Cons fmt fmts)
  show ?case
  proof (cases "pipelineOk (pipeline W fmt)")
    case True
    then show ?thesis
      using Cons.prems by (simp add: attempt_ok failuresBeforeSuccess_def)
  next
    case False
    let ?r' = "snd (attempt W c fmt r)"
    have d: "outPath c \<notin> disk ?r'" using Cons.prems False by (simp add: attempt_failed)
    have "filter isTranscoder (trace ?r') =
            filter isTranscoder (trace r) @ [Spawn ''ffmpeg'' (ffmpegArgs (rate c) (outPath c))]"
      using Cons.prems False by (simp add: attempt_failed)
    moreover have "formatsLoop W c False (fmt # fmts) r = formatsLoop W c False fmts ?r'"
      using Cons.prems False by (simp add: attempt_failed)
    ultimately show ?thesis
      using Cons.IH [OF d] False by (simp add: failuresBeforeSuccess_def)
  qed
qed

lemma loop_responses:
  assumes "outPath c \<notin> disk r" "filter isResponse (trace r) = []"
  shows "filter isResponse (trace (formatsLoop W c False fmts r)) =
           (if failuresBeforeSuccess W fmts < length fmts
            then [Download (outPath c) (Some (outName c))]
            else [Send 500 (failureBody c (finalErrorText r @ attemptSections W fmts))])"
  using assms
proof (induction fmts arbitrary: r)
  case Nil
  then show ?case
    by (simp add: afterLoop_trace failuresBeforeSuccess_def attemptSections_def
        no_response_no_headers)
next
  case (Cons fmt fmts)
  have e: "filter isResponse (trace r) = []" using Cons.prems(2) .
  show ?case
  proof (cases "pipelineOk (pipeline W fmt)")
    case True
    then show ?thesis
      using Cons.prems e by (simp add: attempt_ok failuresBeforeSuccess_def)
  next
    case False
    let ?r' = "snd (attempt W c fmt r)"
    have d: "outPath c \<notin> disk ?r'" using Cons.prems False by (simp add: attempt_failed)
    have h: "filter isResponse (trace ?r') = []"
      using Cons.prems False e by (simp add: attempt_failed)
    have t: "finalErrorText ?r' = finalErrorText r @ attemptSection fmt (pipeline W fmt)"
      using Cons.prems False by (simp add: attempt_failed)
    have "formatsLoop W c False (fmt # fmts) r = formatsLoop W c False fmts ?r'"
      using Cons.prems False by (simp add: attempt_failed)
    then show ?thesis
      using Cons.IH [OF d h] False t by (simp add: failuresBeforeSuccess_def attemptSections_def)
  qed
qed

section \<open>The request of the scenario\<close>

lemma exampleWorld_simps:
  "JSON_parse exampleWorld = noJson" "sanitize exampleWorld = stripUnsafe"
  "path_join exampleWorld = joinPaths" "dirname exampleWorld = ''/app''"
  "USE_COOKIES exampleWorld = None" "COOKIES_FILE_env exampleWorld = None"
  "now exampleWorld = 1700000000000" "metaProc exampleWorld = Closed (Some 1) []"
  "pipeline exampleWorld = thirdSucceeds" "sendOutcome exampleWorld = SendOk"
  by (simp_all add: exampleWorld_def)

lemma showInt_example: "showInt 1700000000000 = ''1700000000000''"
  by (simp add: showInt_def showNat.simps digitChar_def)

lemma isVideoId_example: "isVideoId exampleId"
  by (simp add: isVideoId_iff exampleId_def idAlphabet_def)

lemma qualityKey_high: "qualityKey ''high'' = ''high''"
  by (simp add: qualityKey_cases toLowerCase_lits)

lemma safeTitle_example: "safeTitle exampleWorld = None"
  by (simp add: safeTitle_def fetchMetadata_def titleFrom_def onMetaClose_def exampleWorld_simps)

lemma outName_example:
  "outName (requestCtx exampleWorld fs ''high'' exampleId) = ''dQw4w9WgXcQ-high-1700000000000.mp3''"
  by (simp add: requestCtx_def filename_def base_def idBase_def safeTitle_example
      isVideoId_example qualityKey_high exampleWorld_simps showInt_example)
     (simp add: exampleId_def)

lemma outPath_example:
  "outPath (requestCtx exampleWorld fs ''high'' exampleId) = examplePath"
  using outName_example [of fs]
  by (simp add: requestCtx_def filePath_def DOWNLOAD_DIR_def exampleWorld_simps joinPaths_def
      examplePath_def)

lemma failures_example: "failuresBeforeSuccess exampleWorld formatsToTry = 2"
  by (simp add: failuresBeforeSuccess_def formatsToTry_def exampleWorld_simps thirdSucceeds_def
      pipelineOk_def okOutcome_def failedOutcome_def)

section \<open>Format fallback\<close>

lemma attemptSections_text:
  "attemptSections W fmts =
     concat (map (\<lambda>f.
        ''\<newline>\<newline>--- Attempt format='' @ f @ '' ---\<newline>\<newline>yt-dlp stderr:\<newline>''
        @ (if ytdlStderr (pipeline W f) = [] then ''(none)'' else ytdlStderr (pipeline W f))
        @ ''\<newline>\<newline>ffmpeg stderr:\<newline>''
        @ (if ffmpegStderr (pipeline W f) = [] then ''(none)'' else ffmpegStderr (pipeline W f))
        @ ''\<newline>\<newline>ffmpeg exit code: ''
        @ (case exitCode (pipeline W f) of None \<Rightarrow> ''null'' | Some n \<Rightarrow> showInt n)
        @ ''\<newline>'') fmts)"
  by (simp add: attemptSections_def attemptSection_def orNone_def showCode_def)

lemma allFailWorld_simps:
  "pipeline allFailWorld = allFail" "sendOutcome allFailWorld = SendOk"
  "safeTitle allFailWorld = None" "now allFailWorld = 1700000000000"
  "path_join allFailWorld = joinPaths" "dirname allFailWorld = ''/app''"
  by (simp_all add: allFailWorld_def exampleWorld_def safeTitle_def fetchMetadata_def
      titleFrom_def onMetaClose_def)

lemma failures_allFail: "failuresBeforeSuccess allFailWorld formatsToTry = 4"
  by (simp add: failuresBeforeSuccess_def formatsToTry_def allFailWorld_simps allFail_def
      pipelineOk_def failedOutcome_def)

lemma outputs_allFail:
  "ytdlStderr (allFail f) = ''ERROR: Requested format is not available''"
  "ffmpegStderr (allFail f) = []" "exitCode (allFail f) = Some 1"
  by (simp_all add: allFail_def failedOutcome_def)

lemma showInt_one: "showInt 1 = ''1''"
  by (simp add: showInt_def showNat.simps digitChar_def)

text \<open>
  C1. On a request with an identifier and no file at the output path yet, the handler hands
  the four selectors \<open>bestaudio[ext=m4a]/bestaudio\<close>, \<open>bestaudio[protocol^=https]/bestaudio\<close>,
  \<open>bestaudio[ext=webm]/bestaudio\<close>, \<open>bestaudio\<close> to the extraction tool in this order, starts
  one transcoder for each selector it tries, and stops with the first attempt that
  succeeds: the selectors tried are the failing ones before the first success and the
  successful one, and the only response is then the download. When all four attempts fail
  the only response is status 500. Its text is \<open>Conversion failed. Debug info:\<close>, then for
  each of the four selectors in order a section that starts with the line
  \<open>--- Attempt format=<selector> ---\<close> and holds the stderr text of the extraction under
  \<open>yt-dlp stderr:\<close>, the stderr text of the transcoder under \<open>ffmpeg stderr:\<close> (\<open>(none)\<close>
  for an empty text) and the exit code after \<open>ffmpeg exit code:\<close> (\<open>null\<close> when there is
  none), and then the advice drawn from these sections.
\<close>

theorem fallback_order:
  fixes W :: world
  assumes "idParam \<noteq> []" and "\<not> existsSync fs (outPath c)"
  defines "D \<equiv>
     concat (map (\<lambda>f.
        ''\<newline>\<newline>--- Attempt format='' @ f @ '' ---\<newline>\<newline>yt-dlp stderr:\<newline>''
        @ (if ytdlStderr (pipeline W f) = [] then ''(none)'' else ytdlStderr (pipeline W f))
        @ ''\<newline>\<newline>ffmpeg stderr:\<newline>''
        @ (if ffmpegStderr (pipeline W f) = [] then ''(none)'' else ffmpegStderr (pipeline W f))
        @ ''\<newline>\<newline>ffmpeg exit code: ''
        @ (case exitCode (pipeline W f) of None \<Rightarrow> ''null'' | Some n \<Rightarrow> showInt n)
        @ ''\<newline>'')
       [''bestaudio[ext=m4a]/bestaudio'', ''bestaudio[protocol^=https]/bestaudio'',
        ''bestaudio[ext=webm]/bestaudio'', ''bestaudio''])"
  shows "attemptedFormats (trace (routeWith c W fs idParam)) =
           take (Suc (failuresBeforeSuccess W formatsToTry)) formatsToTry
       \<and> length (filter isTranscoder (trace (routeWith c W fs idParam))) =
           length (attemptedFormats (trace (routeWith c W fs idParam)))
       \<and> filter isResponse (trace (routeWith c W fs idParam)) =
           (if failuresBeforeSuccess W formatsToTry < length formatsToTry
            then [Download (outPath c) (Some (outName c))]
            else [Send 500 (''Conversion failed. Debug info:\<newline>'' @ D @ ''\<newline>'' @ advise c D)])
       \<and> formatsToTry =
           [''bestaudio[ext=m4a]/bestaudio'', ''bestaudio[protocol^=https]/bestaudio'',
            ''bestaudio[ext=webm]/bestaudio'', ''bestaudio'']"
proof -
  let ?r0 = "\<lparr>trace = [Spawn ''yt-dlp'' (metaArgs (url c))], disk = fs, finalErrorText = []\<rparr>"
  have r: "routeWith c W fs idParam = formatsLoop W c False formatsToTry ?r0"
    using assms(1,2) by (simp add: routeWith_def Let_def)
  have d: "outPath c \<notin> disk ?r0" using assms(2) by (simp add: existsSync_def)
  have h: "filter isResponse (trace ?r0) = []" by simp
  have a: "attemptedFormats (trace ?r0) = []" by (simp add: metaArgs_def)
  have t: "filter isTranscoder (trace ?r0) = []" by simp
  have D: "attemptSections W formatsToTry = D"
    unfolding D_def attemptSections_text by (simp add: formatsToTry_def)
  have 1: "attemptedFormats (trace (routeWith c W fs idParam)) =
           take (Suc (failuresBeforeSuccess W formatsToTry)) formatsToTry"
    unfolding r using loop_attempted [OF d, of W formatsToTry] a by simp
  have 2: "length (filter isTranscoder (trace (routeWith c W fs idParam))) =
           length (attemptedFormats (trace (routeWith c W fs idParam)))"
    unfolding 1 unfolding r using loop_transcoders [OF d, of W formatsToTry] t by simp
  have 3: "filter isResponse (trace (routeWith c W fs idParam)) =
           (if failuresBeforeSuccess W formatsToTry < length formatsToTry
            then [Download (outPath c) (Some (outName c))]
            else [Send 500 (''Conversion failed. Debug info:\<newline>'' @ D @ ''\<newline>'' @ advise c D)])"
    unfolding r using loop_responses [OF d h, of W formatsToTry]
    by (simp add: failureBody_def D)
  show ?thesis using 1 2 3 by (simp add: formatsToTry_def)
qed

theorem fallback_order_witness:
  "exampleId \<noteq> []
   \<and> \<not> existsSync {} (outPath (requestCtx exampleWorld {} ''high'' exampleId))
   \<and> attemptedFormats (trace (route exampleWorld {} ''high'' exampleId)) =
       [''bestaudio[ext=m4a]/bestaudio'', ''bestaudio[protocol^=https]/bestaudio'',
        ''bestaudio[ext=webm]/bestaudio'']
   \<and> length (filter isTranscoder (trace (route exampleWorld {} ''high'' exampleId))) = 3
   \<and> filter isResponse (trace (route exampleWorld {} ''high'' exampleId)) =
       [Download examplePath (Some ''dQw4w9WgXcQ-high-1700000000000.mp3'')]
   \<and> \<not> existsSync {} (outPath (requestCtx allFailWorld {} ''high'' exampleId))
   \<and> attemptedFormats (trace (route allFailWorld {} ''high'' exampleId)) =
       [''bestaudio[ext=m4a]/bestaudio'', ''bestaudio[protocol^=https]/bestaudio'',
        ''bestaudio[ext=webm]/bestaudio'', ''bestaudio'']
   \<and> length (filter isTranscoder (trace (route allFailWorld {} ''high'' exampleId))) = 4
   \<and> filter isResponse (trace (route allFailWorld {} ''high'' exampleId)) =
       [Send 500 (''Conversion failed. Debug info:\<newline>\<newline>\<newline>--- Attempt format=bestaudio[ext=m4a]/bestaudio ---\<newline>\<newline>yt-dlp stderr:\<newline>ERROR: Requested format is not available\<newline>\<newline>ffmpeg stderr:\<newline>(none)\<newline>\<newline>ffmpeg exit code: 1\<newline>\<newline>\<newline>--- Attempt format=bestaudio[protocol^=https]/bestaudio ---\<newline>\<newline>yt-dlp stderr:\<newline>ERROR: Requested format is not available\<newline>\<newline>ffmpeg stderr:\<newline>(none)\<newline>\<newline>ffmpeg exit code: 1\<newline>\<newline>\<newline>--- Attempt format=bestaudio[ext=webm]/bestaudio ---\<newline>\<newline>yt-dlp stderr:\<newline>ERROR: Requested format is not available\<newline>\<newline>ffmpeg stderr:\<newline>(none)\<newline>\<newline>ffmpeg exit code: 1\<newline>\<newline>\<newline>--- Attempt format=bestaudio ---\<newline>\<newline>yt-dlp stderr:\<newline>ERROR: Requested format is not available\<newline>\<newline>ffmpeg stderr:\<newline>(none)\<newline>\<newline>ffmpeg exit code: 1\<newline>\<newline>''
                  @ advice (attemptSections allFailWorld formatsToTry))]"
proof -
  have n: "exampleId \<noteq> []" by (simp add: exampleId_def)
  have m: "\<not> existsSync {} (outPath (requestCtx exampleWorld {} ''high'' exampleId))"
    by (simp add: existsSync_def)
  have m': "\<not> existsSync {} (outPath (requestCtx allFailWorld {} ''high'' exampleId))"
    by (simp add: existsSync_def)
  have a: "advise (requestCtx allFailWorld {} ''high'' exampleId) = advice"
    by (simp add: requestCtx_def)
  have 1: "attemptedFormats (trace (route exampleWorld {} ''high'' exampleId)) =
       [''bestaudio[ext=m4a]/bestaudio'', ''bestaudio[protocol^=https]/bestaudio'',
        ''bestaudio[ext=webm]/bestaudio'']
   \<and> length (filter isTranscoder (trace (route exampleWorld {} ''high'' exampleId))) = 3
   \<and> filter isResponse (trace (route exampleWorld {} ''high'' exampleId)) =
       [Download examplePath (Some ''dQw4w9WgXcQ-high-1700000000000.mp3'')]"
    using fallback_order [OF n m, of exampleWorld]
    by (simp add: route_def failures_example outName_example outPath_example)
       (simp add: formatsToTry_def)
  have 2: "attemptedFormats (trace (route allFailWorld {} ''high'' exampleId)) =
       [''bestaudio[ext=m4a]/bestaudio'', ''bestaudio[protocol^=https]/bestaudio'',
        ''bestaudio[ext=webm]/bestaudio'', ''bestaudio'']
   \<and> length (filter isTranscoder (trace (route allFailWorld {} ''high'' exampleId))) = 4
   \<and> filter isResponse (trace (route allFailWorld {} ''high'' exampleId)) =
       [Send 500 (''Conversion failed. Debug info:\<newline>\<newline>\<newline>--- Attempt format=bestaudio[ext=m4a]/bestaudio ---\<newline>\<newline>yt-dlp stderr:\<newline>ERROR: Requested format is not available\<newline>\<newline>ffmpeg stderr:\<newline>(none)\<newline>\<newline>ffmpeg exit code: 1\<newline>\<newline>\<newline>--- Attempt format=bestaudio[protocol^=https]/bestaudio ---\<newline>\<newline>yt-dlp stderr:\<newline>ERROR: Requested format is not available\<newline>\<newline>ffmpeg stderr:\<newline>(none)\<newline>\<newline>ffmpeg exit code: 1\<newline>\<newline>\<newline>--- Attempt format=bestaudio[ext=webm]/bestaudio ---\<newline>\<newline>yt-dlp stderr:\<newline>ERROR: Requested format is not available\<newline>\<newline>ffmpeg stderr:\<newline>(none)\<newline>\<newline>ffmpeg exit code: 1\<newline>\<newline>\<newline>--- Attempt format=bestaudio ---\<newline>\<newline>yt-dlp stderr:\<newline>ERROR: Requested format is not available\<newline>\<newline>ffmpeg stderr:\<newline>(none)\<newline>\<newline>ffmpeg exit code: 1\<newline>\<newline>''
                  @ advice (attemptSections allFailWorld formatsToTry))]"
    using fallback_order [OF n m', of allFailWorld]
    unfolding attemptSections_text
    by (simp add: route_def failures_allFail a allFailWorld_simps outputs_allFail showInt_one)
       (simp add: formatsToTry_def)
  show ?thesis using n m m' 1 2 by blast
qed

section \<open>One attempt\<close>

lemma attempt_trace:
  "trace (snd (attempt W c fmt r)) =
     trace r @ spawnPipeline c fmt
     @ (if fst (attempt W c fmt r) then serve W (outPath c) (outName c)
        else if existsSync (afterFfmpeg (pipeline W fmt) (outPath c) (disk r)) (outPath c)
             then [Unlink (outPath c)] else [])"
  by (simp add: attempt_def Let_def removePartial_eq existsSync_def)

lemma attempt_fst:
  "fst (attempt W c fmt r) =
     attemptOk (exitCode (pipeline W fmt)) (afterFfmpeg (pipeline W fmt) (outPath c) (disk r))
       (outPath c)"
  by (simp add: attempt_def Let_def removePartial_eq)

lemma attempt_disk:
  "disk (snd (attempt W c fmt r)) =
     (if fst (attempt W c fmt r) then afterFfmpeg (pipeline W fmt) (outPath c) (disk r)
      else afterFfmpeg (pipeline W fmt) (outPath c) (disk r) - {outPath c})"
  by (simp add: attempt_def Let_def removePartial_eq)

lemma onFfmpegClose_v1_disk:
  "disk (onFfmpegClose_v1 W p name code r) =
     (if code = Some 0 \<and> existsSync (disk r) p then disk r else disk r - {p})"
  by (simp add: onFfmpegClose_v1_def attemptOk_def removePartial_eq)

lemma onFfmpegClose_v1_downloads:
  "filter isDownload (trace (onFfmpegClose_v1 W p name code r)) =
     filter isDownload (trace r)
     @ (if code = Some 0 \<and> existsSync (disk r) p then [Download p (Some name)] else [])"
  by (simp add: onFfmpegClose_v1_def attemptOk_def removePartial_eq scheduleDelete_def
      split: sendResult.splits)

text \<open>
  C2. One attempt of the loop returns with the download exactly when the transcoder's exit
  code is zero and the output file exists once the transcoder has closed. A failed attempt
  removes the file at the output path before the loop goes on and touches no other file, so
  that after an attempt the file is at the output path exactly when the attempt succeeded.
  The \<open>close\<close> listener of index.js, with its single attempt, does the same.
\<close>

theorem attempt_outcome:
  "fst (attempt W c fmt r) =
     (exitCode (pipeline W fmt) = Some 0
      \<and> existsSync (afterFfmpeg (pipeline W fmt) (outPath c) (disk r)) (outPath c))
   \<and> filter isDownload (trace (snd (attempt W c fmt r))) =
       filter isDownload (trace r)
       @ (if fst (attempt W c fmt r) then [Download (outPath c) (Some (outName c))] else [])
   \<and> disk (snd (attempt W c fmt r)) =
       (if fst (attempt W c fmt r) then afterFfmpeg (pipeline W fmt) (outPath c) (disk r)
        else afterFfmpeg (pipeline W fmt) (outPath c) (disk r) - {outPath c})
   \<and> existsSync (disk (snd (attempt W c fmt r))) (outPath c) = fst (attempt W c fmt r)
   \<and> filter isDownload (trace (onFfmpegClose_v1 W p name code r)) =
       filter isDownload (trace r)
       @ (if code = Some 0 \<and> existsSync (disk r) p then [Download p (Some name)] else [])
   \<and> disk (onFfmpegClose_v1 W p name code r) =
       (if code = Some 0 \<and> existsSync (disk r) p then disk r else disk r - {p})
   \<and> existsSync (disk (onFfmpegClose_v1 W p name code r)) p =
       (code = Some 0 \<and> existsSync (disk r) p)"
proof -
  have 1: "fst (attempt W c fmt r) =
     (exitCode (pipeline W fmt) = Some 0
      \<and> existsSync (afterFfmpeg (pipeline W fmt) (outPath c) (disk r)) (outPath c))"
    by (simp add: attempt_fst attemptOk_def)
  have 2: "filter isDownload (trace (snd (attempt W c fmt r))) =
       filter isDownload (trace r)
       @ (if fst (attempt W c fmt r) then [Download (outPath c) (Some (outName c))] else [])"
    by (simp add: attempt_trace spawnPipeline_def serve_def scheduleDelete_def
        split: sendResult.splits)
  have 3: "existsSync (disk (snd (attempt W c fmt r))) (outPath c) = fst (attempt W c fmt r)"
    unfolding attempt_disk using 1 by (simp add: existsSync_def)
  have 4: "existsSync (disk (onFfmpegClose_v1 W p name code r)) p =
       (code = Some 0 \<and> existsSync (disk r) p)"
    unfolding onFfmpegClose_v1_disk by (simp add: existsSync_def)
  show ?thesis
    using 1 2 3 4 attempt_disk [of W c fmt r] onFfmpegClose_v1_downloads [of W p name code r]
      onFfmpegClose_v1_disk [of W p name code r]
    by blast
qed

section \<open>Cancellation\<close>

lemma kills_attempt:
  "filter isKill (trace (snd (attempt W c fmt r))) = filter isKill (trace r)"
  by (simp add: attempt_trace spawnPipeline_def serve_def scheduleDelete_def
      split: sendResult.splits)

lemma kills_afterLoop: "filter isKill (trace (afterLoop W c r)) = filter isKill (trace r)"
  by (simp add: afterLoop_trace)

lemma loop_no_kill:
  "filter isKill (trace (formatsLoop W c conv fmts r)) = filter isKill (trace r)"
proof (induction fmts arbitrary: r conv)
  case Nil
  show ?case by (simp add: kills_afterLoop)
next
  case (Cons fmt fmts)
  obtain ok r' where a: "attempt W c fmt r = (ok, r')" by (cases "attempt W c fmt r")
  then have k: "filter isKill (trace r') = filter isKill (trace r)"
    using kills_attempt [of W c fmt r] by simp
  show ?case
    using a k Cons.IH [of False r'] by (cases ok) (simp_all add: kills_afterLoop)
qed

lemma routeWith_no_kill: "filter isKill (trace (routeWith c W fs idParam)) = []"
  by (simp add: routeWith_def Let_def loop_no_kill serve_def scheduleDelete_def
      split: sendResult.splits)

lemma routeWith_loop:
  assumes "idParam \<noteq> []" and "\<not> existsSync fs (outPath c)"
  shows "routeWith c W fs idParam =
           formatsLoop W c False formatsToTry
             \<lparr>trace = [Spawn ''yt-dlp'' (metaArgs (url c))], disk = fs, finalErrorText = []\<rparr>"
  using assms by (simp add: routeWith_def Let_def)

lemma disconnectWorld_simps:
  "pipeline disconnectWorld = closedDuringFirst" "sendOutcome disconnectWorld = SendOk"
  "safeTitle disconnectWorld = None" "now disconnectWorld = 1700000000000"
  "path_join disconnectWorld = joinPaths" "dirname disconnectWorld = ''/app''"
  by (simp_all add: disconnectWorld_def exampleWorld_def safeTitle_def fetchMetadata_def
      titleFrom_def onMetaClose_def)

lemma failures_disconnect: "failuresBeforeSuccess disconnectWorld formatsToTry = 4"
  by (simp add: failuresBeforeSuccess_def formatsToTry_def disconnectWorld_simps
      closedDuringFirst_def pipelineOk_def failedOutcome_def)

lemma disconnectWorld_v1_simps:
  "pipeline disconnectWorld_v1 = killedPipeline" "sendOutcome disconnectWorld_v1 = SendOk"
  "safeTitle_v1 disconnectWorld_v1 = None" "now disconnectWorld_v1 = 1700000000000"
  "path_join disconnectWorld_v1 = joinPaths" "dirname disconnectWorld_v1 = ''/app''"
  by (simp_all add: disconnectWorld_v1_def exampleWorld_def safeTitle_v1_def fetchMetadata_v1_def
      titleFrom_def onMetaClose_def)

lemma filePath_disconnect_v1:
  "filePath disconnectWorld_v1 None ''high'' exampleId = examplePath"
  by (simp add: filePath_def filename_def base_def idBase_def DOWNLOAD_DIR_def
      disconnectWorld_v1_simps isVideoId_example qualityKey_high showInt_example joinPaths_def)
     (simp add: exampleId_def examplePath_def)

text \<open>
  C3. When the caller goes away while an attempt is running, the extraction process and
  the transcoder of that attempt are killed with SIGKILL and no further selector is tried.
  The handler of index.js does so. The handler with the format loop registers no listener
  for the request's \<open>close\<close> event: at the request below, where the caller goes away during
  the first attempt and every attempt fails, it kills nothing and tries all four selectors.
\<close>

theorem disconnect_not_handled:
  "clientClosed (pipeline disconnectWorld ''bestaudio[ext=m4a]/bestaudio'')
   \<and> filter isKill (trace (route disconnectWorld {} ''high'' exampleId)) = []
   \<and> attemptedFormats (trace (route disconnectWorld {} ''high'' exampleId)) =
       [''bestaudio[ext=m4a]/bestaudio'', ''bestaudio[protocol^=https]/bestaudio'',
        ''bestaudio[ext=webm]/bestaudio'', ''bestaudio'']
   \<and> clientClosed (pipeline disconnectWorld_v1 ''bestaudio'')
   \<and> filter isKill (trace (route_v1 disconnectWorld_v1 {} ''high'' exampleId)) =
       [Kill ''yt-dlp'' ''SIGKILL'', Kill ''ffmpeg'' ''SIGKILL'']
   \<and> attemptedFormats (trace (route_v1 disconnectWorld_v1 {} ''high'' exampleId)) =
       [''bestaudio'']"
proof -
  let ?c = "requestCtx disconnectWorld {} ''high'' exampleId"
  let ?r0 = "\<lparr>trace = [Spawn ''yt-dlp'' (metaArgs (url ?c))], disk = {}, finalErrorText = []\<rparr>"
  have n: "exampleId \<noteq> []" by (simp add: exampleId_def)
  have m: "\<not> existsSync {} (outPath ?c)" by (simp add: existsSync_def)
  have d: "outPath ?c \<notin> disk ?r0" by simp
  have 1: "clientClosed (pipeline disconnectWorld ''bestaudio[ext=m4a]/bestaudio'')"
    by (simp add: disconnectWorld_simps closedDuringFirst_def)
  have 2: "filter isKill (trace (route disconnectWorld {} ''high'' exampleId)) = []"
    by (simp add: route_def routeWith_no_kill)
  have 3: "attemptedFormats (trace (route disconnectWorld {} ''high'' exampleId)) =
       [''bestaudio[ext=m4a]/bestaudio'', ''bestaudio[protocol^=https]/bestaudio'',
        ''bestaudio[ext=webm]/bestaudio'', ''bestaudio'']"
    unfolding route_def routeWith_loop [OF n m]
    using loop_attempted [OF d, of disconnectWorld formatsToTry]
    by (simp add: failures_disconnect metaArgs_def) (simp add: formatsToTry_def)
  have 4: "clientClosed (pipeline disconnectWorld_v1 ''bestaudio'')"
    by (simp add: disconnectWorld_v1_simps killedPipeline_def killedOutcome_def)
  have v1: "trace (route_v1 disconnectWorld_v1 {} ''high'' exampleId) =
      [Spawn ''yt-dlp'' (metaArgs (videoUrl exampleId)),
       Spawn ''yt-dlp'' [''-f'', ''bestaudio'', ''-o'', ''-'', videoUrl exampleId],
       Spawn ''ffmpeg'' (ffmpegArgs (bitrateArg ''high'') examplePath),
       Kill ''yt-dlp'' ''SIGKILL'', Kill ''ffmpeg'' ''SIGKILL'',
       Send 500 ''Conversion failed'', Unlink examplePath]"
    using n
    by (simp add: route_v1_def Let_def disconnectWorld_v1_simps filePath_disconnect_v1
        existsSync_def killedPipeline_def killedOutcome_def onReqClose_v1_def
        onFfmpegClose_v1_def attemptOk_def afterFfmpeg_def removePartial_eq headersSent_def)
  have 5: "filter isKill (trace (route_v1 disconnectWorld_v1 {} ''high'' exampleId)) =
       [Kill ''yt-dlp'' ''SIGKILL'', Kill ''ffmpeg'' ''SIGKILL'']"
    unfolding v1 by simp
  have 6: "attemptedFormats (trace (route_v1 disconnectWorld_v1 {} ''high'' exampleId)) =
       [''bestaudio'']"
    unfolding v1 by (simp add: metaArgs_def ffmpegArgs_def)
  show ?thesis using 1 2 3 4 5 6 by blast
qed

section \<open>The responses of a request with an identifier\<close>

lemma safeTitle_v1_eq: "safeTitle_v1 W = safeTitle W"
  by (simp add: safeTitle_v1_def safeTitle_def fetchMetadata_v1_def fetchMetadata_def
      titleFrom_def split: meta_proc.splits)

lemma routeWith_responses:
  assumes "idParam \<noteq> []"
  shows "filter isResponse (trace (routeWith c W fs idParam)) =
           (if existsSync fs (outPath c)
               \<or> failuresBeforeSuccess W formatsToTry < length formatsToTry
            then [Download (outPath c) (Some (outName c))]
            else [Send 500 (failureBody c (attemptSections W formatsToTry))])"
proof (cases "existsSync fs (outPath c)")
  case True
  then show ?thesis using assms by (simp add: routeWith_def Let_def)
next
  case False
  let ?r0 = "\<lparr>trace = [Spawn ''yt-dlp'' (metaArgs (url c))], disk = fs, finalErrorText = []\<rparr>"
  have d: "outPath c \<notin> disk ?r0" using False by (simp add: existsSync_def)
  have h: "filter isResponse (trace ?r0) = []" by simp
  show ?thesis
    unfolding routeWith_loop [OF assms False]
    using loop_responses [OF d h, of W formatsToTry] False by simp
qed

lemma route_v1_responses:
  assumes "idParam \<noteq> []"
  shows "filter isResponse (trace (route_v1 W fs q idParam)) =
           (if existsSync fs (filePath W (safeTitle W) q idParam)
            then [Download (filePath W (safeTitle W) q idParam) None]
            else if exitCode (pipeline W ''bestaudio'') = Some 0
                    \<and> wroteFile (pipeline W ''bestaudio'')
            then Download (filePath W (safeTitle W) q idParam)
                   (Some (filename W (safeTitle W) q idParam))
                 # (case sendOutcome W of
                      SendOk \<Rightarrow> []
                    | SendFailed sent \<Rightarrow> (if sent then [] else [Send 500 ''Error sending file'']))
            else [Send 500 ''Conversion failed''])"
  using assms
  by (simp add: route_v1_def Let_def safeTitle_v1_eq onFfmpegClose_v1_def attemptOk_def
      afterFfmpeg_def existsSync_def removePartial_eq headersSent_def scheduleDelete_def
      onReqClose_v1_def split: sendResult.splits)

section \<open>Missing identifier\<close>

lemma guard_on_empty_id:
  "trace (route W fs q []) = [Send 400 ''Missing id'']
   \<and> trace (route_v2 W fs q []) = [Send 400 ''Missing id'']
   \<and> trace (route_v1 W fs q []) = [Send 400 ''Missing id'']"
  by (simp add: route_def route_v2_def routeWith_def route_v1_def)

lemma matchRoute_ident: "matchRoute path = Some (quality, ident) \<Longrightarrow> ident \<noteq> []"
  by (auto simp: matchRoute_def Let_def split: list.splits if_splits)

lemma matchRoute_empty_id: "matchRoute ''/high/id='' = None"
  by (simp add: matchRoute_def Let_def notSlash_def dropTrailingSlash_def)

lemma routeWith_no_400:
  assumes "idParam \<noteq> []"
  shows "Send 400 ''Missing id'' \<notin> set (trace (routeWith c W fs idParam))"
proof
  assume "Send 400 ''Missing id'' \<in> set (trace (routeWith c W fs idParam))"
  then have "Send 400 ''Missing id'' \<in> set (filter isResponse (trace (routeWith c W fs idParam)))"
    by simp
  then show False
    unfolding routeWith_responses [OF assms] by (simp split: if_splits)
qed

lemma route_v1_no_400:
  assumes "idParam \<noteq> []"
  shows "Send 400 ''Missing id'' \<notin> set (trace (route_v1 W fs q idParam))"
proof
  assume "Send 400 ''Missing id'' \<in> set (trace (route_v1 W fs q idParam))"
  then have "Send 400 ''Missing id'' \<in> set (filter isResponse (trace (route_v1 W fs q idParam)))"
    by simp
  then show False
    unfolding route_v1_responses [OF assms] by (simp split: if_splits sendResult.splits)
qed

lemma dispatchTo_no_400:
  assumes "\<And>quality ident. ident \<noteq> [] \<Longrightarrow> Send 400 ''Missing id'' \<notin> set (trace (h quality ident))"
  shows "Send 400 ''Missing id'' \<notin> set (trace (dispatchTo h fs path))"
proof (cases "matchRoute path")
  case None
  then show ?thesis by (simp add: dispatchTo_def rootInfo_def)
next
  case (Some qi)
  obtain quality ident where qi: "qi = (quality, ident)" by (cases qi)
  have "ident \<noteq> []" using Some qi matchRoute_ident by simp
  then show ?thesis using Some qi assms by (simp add: dispatchTo_def)
qed

lemma dispatchTo_empty_id:
  "trace (dispatchTo h fs ''/high/id='') = [NotFound ''/high/id='']"
  by (simp add: dispatchTo_def matchRoute_empty_id)

text \<open>
  C8. A request with an empty identifier is answered with status 400 and the text
  \<open>Missing id\<close>, and no process is spawned for it. The handler has the guard for it in
  the three revisions, but no request reaches the guard: the pattern of the route takes
  one character or more for the identifier, so the request \<open>GET /high/id=\<close> matches no
  route and gets the router's 404, and no request at all is answered \<open>Missing id\<close>.
  Nothing is spawned for that request.
\<close>

theorem empty_identifier_not_routed:
  "matchRoute ''/high/id='' = None
   \<and> trace (dispatch W fs ''/high/id='') = [NotFound ''/high/id='']
   \<and> trace (dispatch_v2 W fs ''/high/id='') = [NotFound ''/high/id='']
   \<and> trace (dispatch_v1 W fs ''/high/id='') = [NotFound ''/high/id='']
   \<and> Send 400 ''Missing id'' \<notin> set (trace (dispatch W fs path))
   \<and> Send 400 ''Missing id'' \<notin> set (trace (dispatch_v2 W fs path))
   \<and> Send 400 ''Missing id'' \<notin> set (trace (dispatch_v1 W fs path))
   \<and> trace (route W fs q []) = [Send 400 ''Missing id'']
   \<and> trace (route_v2 W fs q []) = [Send 400 ''Missing id'']
   \<and> trace (route_v1 W fs q []) = [Send 400 ''Missing id'']"
proof -
  have 1: "Send 400 ''Missing id'' \<notin> set (trace (dispatch W fs path))"
    unfolding dispatch_def by (rule dispatchTo_no_400) (simp add: route_def routeWith_no_400)
  have 2: "Send 400 ''Missing id'' \<notin> set (trace (dispatch_v2 W fs path))"
    unfolding dispatch_v2_def by (rule dispatchTo_no_400) (simp add: route_v2_def routeWith_no_400)
  have 3: "Send 400 ''Missing id'' \<notin> set (trace (dispatch_v1 W fs path))"
    unfolding dispatch_v1_def by (rule dispatchTo_no_400) (simp add: route_v1_no_400)
  show ?thesis
    using 1 2 3 matchRoute_empty_id guard_on_empty_id [of W fs q]
    by (simp add: dispatch_def dispatch_v2_def dispatch_v1_def dispatchTo_empty_id)
qed

section \<open>A file that exists already\<close>

lemma routeWith_cached:
  assumes "idParam \<noteq> []" and "existsSync fs (outPath c)"
  shows "trace (routeWith c W fs idParam) =
           [Spawn ''yt-dlp'' [''-j'', ''--no-warnings'', url c],
            Download (outPath c) (Some (outName c))]
           @ (if sendOutcome W = SendOk then [ScheduleDelete (outPath c) (60 * 60 * 1000)]
              else [])"
  using assms
  by (simp add: routeWith_def Let_def serve_def scheduleDelete_def ONE_HOUR_MS_def metaArgs_def
      split: sendResult.splits)

lemma sendFailsWorld_simps:
  "sendOutcome sendFailsWorld = SendFailed False"
  "safeTitle sendFailsWorld = None" "now sendFailsWorld = 1700000000000"
  "path_join sendFailsWorld = joinPaths" "dirname sendFailsWorld = ''/app''"
  by (simp_all add: sendFailsWorld_def exampleWorld_def safeTitle_def fetchMetadata_def
      titleFrom_def onMetaClose_def)

lemma filePath_sendFails:
  "filePath sendFailsWorld None ''high'' exampleId = examplePath"
  by (simp add: filePath_def filename_def base_def idBase_def DOWNLOAD_DIR_def
      sendFailsWorld_simps isVideoId_example qualityKey_high showInt_example joinPaths_def)
     (simp add: exampleId_def examplePath_def)

lemma filePath_example:
  "filePath exampleWorld None ''high'' exampleId = examplePath"
  using outPath_example [of "{}"] by (simp add: requestCtx_def safeTitle_example)

lemma filename_example:
  "filename exampleWorld None ''high'' exampleId = ''dQw4w9WgXcQ-high-1700000000000.mp3''"
  using outName_example [of "{}"] by (simp add: requestCtx_def safeTitle_example)

text \<open>
  C9 as the specification states it: whenever the output file exists already, its deletion
  is scheduled. It fails where the transfer of the file ends with an error: the file is
  handed to \<open>res.download\<close> and no deletion is scheduled.
\<close>

theorem failed_transfer_schedules_nothing:
  "existsSync {examplePath} (filePath sendFailsWorld (safeTitle sendFailsWorld) ''high'' exampleId)
   \<and> filter isDownload (trace (route sendFailsWorld {examplePath} ''high'' exampleId)) =
       [Download examplePath (Some ''dQw4w9WgXcQ-high-1700000000000.mp3'')]
   \<and> filter isSchedule (trace (route sendFailsWorld {examplePath} ''high'' exampleId)) = []"
proof -
  have n: "exampleId \<noteq> []" by (simp add: exampleId_def)
  have p: "outPath (requestCtx sendFailsWorld {examplePath} ''high'' exampleId) = examplePath"
    by (simp add: requestCtx_def sendFailsWorld_simps filePath_sendFails)
  have f: "outName (requestCtx sendFailsWorld {examplePath} ''high'' exampleId) =
             ''dQw4w9WgXcQ-high-1700000000000.mp3''"
    by (simp add: requestCtx_def sendFailsWorld_simps filename_def base_def idBase_def
        isVideoId_example qualityKey_high showInt_example)
       (simp add: exampleId_def)
  have e: "existsSync {examplePath}
             (outPath (requestCtx sendFailsWorld {examplePath} ''high'' exampleId))"
    unfolding p by (simp add: existsSync_def)
  show ?thesis
    using routeWith_cached [OF n e, of sendFailsWorld] p f
    by (simp add: route_def sendFailsWorld_simps filePath_sendFails existsSync_def)
qed

text \<open>
  C9, amended. On a request with an identifier whose output file exists already, the
  handler starts the metadata process and then serves the file at once: it starts no
  extraction for a selector and no transcoder. The revisions with the format loop schedule
  the deletion of the file, one hour after the transfer, when the transfer has ended
  without an error, and schedule nothing when it has ended with one.
\<close>

theorem cached_file:
  assumes "idParam \<noteq> []" and "existsSync fs (filePath W (safeTitle W) q idParam)"
  shows "trace (route W fs q idParam) =
           [Spawn ''yt-dlp'' [''-j'', ''--no-warnings'', videoUrl idParam],
            Download (filePath W (safeTitle W) q idParam)
              (Some (filename W (safeTitle W) q idParam))]
           @ (if sendOutcome W = SendOk
              then [ScheduleDelete (filePath W (safeTitle W) q idParam) (60 * 60 * 1000)]
              else [])
       \<and> trace (route_v2 W fs q idParam) = trace (route W fs q idParam)
       \<and> attemptedFormats (trace (route_v1 W fs q idParam)) = []
       \<and> filter isTranscoder (trace (route_v1 W fs q idParam)) = []
       \<and> filter isResponse (trace (route_v1 W fs q idParam)) =
           [Download (filePath W (safeTitle W) q idParam) None]"
proof -
  have e: "existsSync fs (outPath (requestCtx W fs q idParam))"
    using assms(2) by (simp add: requestCtx_def)
  have e2: "existsSync fs (outPath (requestCtx_v2 W fs q idParam))"
    using assms(2) by (simp add: requestCtx_v2_def)
  have 1: "trace (route W fs q idParam) =
           [Spawn ''yt-dlp'' [''-j'', ''--no-warnings'', videoUrl idParam],
            Download (filePath W (safeTitle W) q idParam)
              (Some (filename W (safeTitle W) q idParam))]
           @ (if sendOutcome W = SendOk
              then [ScheduleDelete (filePath W (safeTitle W) q idParam) (60 * 60 * 1000)]
              else [])"
    unfolding route_def routeWith_cached [OF assms(1) e] by (simp add: requestCtx_def)
  have 2: "trace (route_v2 W fs q idParam) = trace (route W fs q idParam)"
    unfolding 1 unfolding route_v2_def routeWith_cached [OF assms(1) e2]
    by (simp add: requestCtx_v2_def)
  have v1: "trace (route_v1 W fs q idParam) =
      [Spawn ''yt-dlp'' (metaArgs (videoUrl idParam)),
       Download (filePath W (safeTitle W) q idParam) None]"
    using assms by (simp add: route_v1_def Let_def safeTitle_v1_eq)
  show ?thesis using 1 2 unfolding v1 by (simp add: metaArgs_def)
qed

theorem cached_file_witness:
  "exampleId \<noteq> []
   \<and> existsSync {examplePath} (filePath exampleWorld (safeTitle exampleWorld) ''high'' exampleId)
   \<and> trace (route exampleWorld {examplePath} ''high'' exampleId) =
       [Spawn ''yt-dlp'' [''-j'', ''--no-warnings'', ''https://www.youtube.com/watch?v=dQw4w9WgXcQ''],
        Download examplePath (Some ''dQw4w9WgXcQ-high-1700000000000.mp3''),
        ScheduleDelete examplePath 3600000]"
proof -
  have n: "exampleId \<noteq> []" by (simp add: exampleId_def)
  have e: "existsSync {examplePath}
             (filePath exampleWorld (safeTitle exampleWorld) ''high'' exampleId)"
    by (simp add: safeTitle_example filePath_example existsSync_def)
  have u: "videoUrl exampleId = ''https://www.youtube.com/watch?v=dQw4w9WgXcQ''"
    by (simp add: videoUrl_def isVideoId_example watchPrefix_def) (simp add: exampleId_def)
  show ?thesis
    using cached_file [OF n e] n e
    by (simp add: safeTitle_example filePath_example filename_example exampleWorld_simps u)
qed

section \<open>Metadata failures\<close>

lemma metaFailed_fetch:
  assumes "metaFailed W"
  shows "fetchMetadata W = Inr JNull"
  using assms
  by (auto simp: metaFailed_def fetchMetadata_def onMetaClose_def split: meta_proc.splits)

lemma metaFailed_fetch_v1:
  assumes "metaFailed W"
  shows "fetchMetadata_v1 W =
           (case metaProc W of SpawnError e \<Rightarrow> Inl e | Closed code out \<Rightarrow> Inr JNull)"
  using assms
  by (auto simp: metaFailed_def fetchMetadata_v1_def onMetaClose_def split: meta_proc.splits)

text \<open>
  C7 as the specification states it: for a process that cannot be spawned the fetch
  resolves to "no title" rather than propagating an error. In index.js the \<open>error\<close>
  listener rejects the promise with the error.
\<close>

theorem metadata_spawn_failure_rejects:
  "metaFailed spawnFailWorld
   \<and> fetchMetadata_v1 spawnFailWorld = Inl ''spawn yt-dlp ENOENT''
   \<and> fetchMetadata_v1 spawnFailWorld \<noteq> Inr JNull"
  by (simp add: metaFailed_def fetchMetadata_v1_def spawnFailWorld_def exampleWorld_def)

text \<open>
  C7, amended. When the metadata process cannot be spawned, exits with a code other than
  zero, prints nothing, or prints what is not JSON, the handler goes on without a title.
  \<open>fetchMetadata\<close> of part_002 resolves to \<open>null\<close> in the four cases; \<open>fetchMetadata\<close> of
  index.js resolves to \<open>null\<close> in three of them and rejects for the failed spawn, which the
  handler's \<open>catch\<close> discards. In both revisions the title stays \<open>null\<close> and the name of the
  file is built from the identifier alone. The request is carried through as a request
  without a title is: the handler calls \<open>res.download\<close> for the file of that name when the
  file exists already or a conversion succeeds, and it answers with status 500 and the
  text of the failed conversion otherwise; no other response comes from the handler.
\<close>

theorem metadata_failures:
  fixes q :: string
  assumes "metaFailed W" and "idParam \<noteq> []"
  defines "N \<equiv> (if isVideoId idParam then idParam else slice0 40 (sanitize W idParam))
                 @ ''-'' @ qualityKey q @ ''-'' @ showInt (now W) @ ''.mp3''"
  defines "P \<equiv> path_join W (path_join W (dirname W) ''downloads'') N"
  shows "fetchMetadata W = Inr JNull
       \<and> fetchMetadata_v1 W =
           (case metaProc W of SpawnError e \<Rightarrow> Inl e | Closed code out \<Rightarrow> Inr JNull)
       \<and> safeTitle W = None
       \<and> safeTitle_v1 W = None
       \<and> outName (requestCtx W fs q idParam) = N
       \<and> outPath (requestCtx W fs q idParam) = P
       \<and> filter isResponse (trace (route W fs q idParam)) =
           (if existsSync fs P \<or> failuresBeforeSuccess W formatsToTry < length formatsToTry
            then [Download P (Some N)]
            else [Send 500 (''Conversion failed. Debug info:\<newline>''
                            @ attemptSections W formatsToTry @ ''\<newline>''
                            @ advice (attemptSections W formatsToTry))])
       \<and> filter isResponse (trace (route_v1 W fs q idParam)) =
           (if existsSync fs P then [Download P None]
            else if exitCode (pipeline W ''bestaudio'') = Some 0
                    \<and> wroteFile (pipeline W ''bestaudio'')
            then Download P (Some N)
                 # (case sendOutcome W of
                      SendOk \<Rightarrow> []
                    | SendFailed sent \<Rightarrow> (if sent then [] else [Send 500 ''Error sending file'']))
            else [Send 500 ''Conversion failed''])"
proof -
  have 1: "fetchMetadata W = Inr JNull" by (rule metaFailed_fetch [OF assms(1)])
  have 2: "safeTitle W = None" by (simp add: safeTitle_def 1 titleFrom_def)
  have 3: "safeTitle_v1 W = None" by (simp add: safeTitle_v1_eq 2)
  have n: "filename W None q idParam = N"
    by (simp add: N_def filename_def base_def idBase_def)
  have p: "filePath W None q idParam = P"
    by (simp add: P_def filePath_def DOWNLOAD_DIR_def n)
  have 4: "outName (requestCtx W fs q idParam) = N" by (simp add: requestCtx_def 2 n)
  have 5: "outPath (requestCtx W fs q idParam) = P" by (simp add: requestCtx_def 2 p)
  have 6: "filter isResponse (trace (route W fs q idParam)) =
           (if existsSync fs P \<or> failuresBeforeSuccess W formatsToTry < length formatsToTry
            then [Download P (Some N)]
            else [Send 500 (''Conversion failed. Debug info:\<newline>''
                            @ attemptSections W formatsToTry @ ''\<newline>''
                            @ advice (attemptSections W formatsToTry))])"
    unfolding route_def routeWith_responses [OF assms(2)] 4 5
    by (simp add: failureBody_def requestCtx_def)
  have 7: "filter isResponse (trace (route_v1 W fs q idParam)) =
           (if existsSync fs P then [Download P None]
            else if exitCode (pipeline W ''bestaudio'') = Some 0
                    \<and> wroteFile (pipeline W ''bestaudio'')
            then Download P (Some N)
                 # (case sendOutcome W of
                      SendOk \<Rightarrow> []
                    | SendFailed sent \<Rightarrow> (if sent then [] else [Send 500 ''Error sending file'']))
            else [Send 500 ''Conversion failed''])"
    unfolding route_v1_responses [OF assms(2)] 2 n p by (rule refl)
  show ?thesis
    using 1 2 3 4 5 6 7 metaFailed_fetch_v1 [OF assms(1)] by blast
qed

theorem metadata_failures_witness:
  "metaFailed spawnFailWorld
   \<and> exampleId \<noteq> []
   \<and> fetchMetadata spawnFailWorld = Inr JNull
   \<and> safeTitle spawnFailWorld = None
   \<and> safeTitle_v1 spawnFailWorld = None
   \<and> outName (requestCtx spawnFailWorld {} ''high'' exampleId) =
       ''dQw4w9WgXcQ-high-1700000000000.mp3''
   \<and> filter isResponse (trace (route spawnFailWorld {} ''high'' exampleId)) =
       [Download examplePath (Some ''dQw4w9WgXcQ-high-1700000000000.mp3'')]
   \<and> filter isResponse (trace (route_v1 spawnFailWorld {} ''high'' exampleId)) =
       [Send 500 ''Conversion failed'']"
proof -
  have m: "metaFailed spawnFailWorld"
    by (simp add: metaFailed_def spawnFailWorld_def exampleWorld_def)
  have i: "exampleId \<noteq> []" by (simp add: exampleId_def)
  have w: "now spawnFailWorld = 1700000000000" "path_join spawnFailWorld = joinPaths"
    "dirname spawnFailWorld = ''/app''" "pipeline spawnFailWorld = thirdSucceeds"
    by (simp_all add: spawnFailWorld_def exampleWorld_def)
  have f: "failuresBeforeSuccess spawnFailWorld formatsToTry = 2"
    by (simp add: failuresBeforeSuccess_def formatsToTry_def w thirdSucceeds_def
        pipelineOk_def okOutcome_def failedOutcome_def)
  have b: "exitCode (thirdSucceeds ''bestaudio'') = Some 1"
    by (simp add: thirdSucceeds_def failedOutcome_def)
  have l: "length formatsToTry = 4" by (simp add: formatsToTry_def)
  show ?thesis
    using metadata_failures [OF m i, of "{}" "''high''"] m i
    by (simp add: isVideoId_example qualityKey_high w showInt_example f b l existsSync_def
        joinPaths_def)
       (simp add: exampleId_def examplePath_def)
qed

section \<open>File name\<close>

lemma titleFrom_cases:
  "titleFrom W res =
     (case res of
        Inr (JObj kvs) \<Rightarrow>
          (case map_of kvs ''title'' of
             Some (JStr s) \<Rightarrow> (if s \<noteq> [] then Some (take 120 (sanitize W s)) else None)
           | _ \<Rightarrow> None)
      | _ \<Rightarrow> None)"
  by (simp add: titleFrom_def slice0_def split: sum.splits jsval.splits option.splits)

lemma filename_cases:
  "filename W st q idParam =
     (case st of
        Some t \<Rightarrow>
          (if t \<noteq> [] then t
           else if length idParam = 11 \<and> set idParam \<subseteq> set idAlphabet then idParam
           else take 40 (sanitize W idParam))
      | None \<Rightarrow>
          (if length idParam = 11 \<and> set idParam \<subseteq> set idAlphabet then idParam
           else take 40 (sanitize W idParam)))
     @ ''-'' @ qualityKey q @ ''-'' @ showInt (now W) @ ''.mp3''"
  by (simp add: filename_def base_def idBase_def isVideoId_iff slice0_def split: option.splits)

lemma questionWorld_simps:
  "JSON_parse questionWorld = titleJson" "sanitize questionWorld = stripUnsafe"
  "metaProc questionWorld = Closed (Some 0) ''?''" "now questionWorld = 1700000000000"
  by (simp_all add: questionWorld_def exampleWorld_def)

text \<open>
  C6 as the specification states it: whenever the metadata has been fetched, the base of
  the name is the sanitized title cut to 120 characters. It fails for a title that
  sanitizes to the empty string: the extraction tool reports the title \<open>?\<close>, the
  sanitized title is empty, and the name starts with the identifier.
\<close>

theorem empty_title_falls_back:
  "fetchMetadata questionWorld = Inr (JObj [(''title'', JStr ''?'')])
   \<and> slice0 120 (sanitize questionWorld ''?'') = []
   \<and> outName (requestCtx questionWorld {} ''high'' exampleId) =
       ''dQw4w9WgXcQ-high-1700000000000.mp3''
   \<and> outName (requestCtx questionWorld {} ''high'' exampleId) \<noteq>
       slice0 120 (sanitize questionWorld ''?'') @ ''-high-1700000000000.mp3''"
proof -
  have 1: "fetchMetadata questionWorld = Inr (JObj [(''title'', JStr ''?'')])"
    by (simp add: fetchMetadata_def onMetaClose_def questionWorld_simps titleJson_def)
  have 2: "slice0 120 (sanitize questionWorld ''?'') = []"
    by (simp add: questionWorld_simps stripUnsafe_def unsafeChars_def slice0_def)
  have 3: "safeTitle questionWorld = Some []"
    using 2 by (simp add: safeTitle_def 1 titleFrom_def)
  have 4: "outName (requestCtx questionWorld {} ''high'' exampleId) =
       ''dQw4w9WgXcQ-high-1700000000000.mp3''"
    by (simp add: requestCtx_def filename_def base_def idBase_def 3 isVideoId_example
        qualityKey_high questionWorld_simps showInt_example)
       (simp add: exampleId_def)
  show ?thesis using 1 2 4 by simp
qed

text \<open>
  C6, amended. The name of the output file is \<open>{base}-{quality tier}-{timestamp}.mp3\<close>. The
  base is the sanitized title cut to 120 characters when the metadata is a record whose
  title is a non-empty string and the sanitized, cut title is not empty; otherwise it is
  the identifier itself when that has exactly 11 characters of the identifier alphabet,
  and otherwise the sanitized identifier cut to 40 characters.
\<close>

theorem filename_construction:
  "filename W st q idParam =
     (case st of
        Some t \<Rightarrow>
          (if t \<noteq> [] then t
           else if length idParam = 11 \<and> set idParam \<subseteq> set idAlphabet then idParam
           else take 40 (sanitize W idParam))
      | None \<Rightarrow>
          (if length idParam = 11 \<and> set idParam \<subseteq> set idAlphabet then idParam
           else take 40 (sanitize W idParam)))
     @ ''-'' @ qualityKey q @ ''-'' @ showInt (now W) @ ''.mp3''
   \<and> titleFrom W res =
     (case res of
        Inr (JObj kvs) \<Rightarrow>
          (case map_of kvs ''title'' of
             Some (JStr s) \<Rightarrow> (if s \<noteq> [] then Some (take 120 (sanitize W s)) else None)
           | _ \<Rightarrow> None)
      | _ \<Rightarrow> None)
   \<and> outName (requestCtx W fs q idParam) = filename W (titleFrom W (fetchMetadata W)) q idParam
   \<and> outName (requestCtx_v2 W fs q idParam) = filename W (titleFrom W (fetchMetadata W)) q idParam
   \<and> safeTitle_v1 W = titleFrom W (fetchMetadata W)
   \<and> outPath (requestCtx W fs q idParam) =
       path_join W (path_join W (dirname W) ''downloads'') (outName (requestCtx W fs q idParam))"
  using filename_cases [of W st q idParam] titleFrom_cases [of W res] safeTitle_v1_eq [of W]
  by (simp add: requestCtx_def requestCtx_v2_def safeTitle_def filePath_def DOWNLOAD_DIR_def)

section \<open>Cookies\<close>

lemma COOKIES_FILE_nonempty: "COOKIES_FILE W \<noteq> []"
  by (simp add: COOKIES_FILE_def orElse_def split: option.splits)

lemma cookiesPath_eq: "cookiesPath W = path_join W (dirname W) (COOKIES_FILE W)"
  using COOKIES_FILE_nonempty [of W] by (simp add: cookiesPath_def orElse_def)

lemma cookiesFile_v2_eq: "cookiesFile_v2 W = COOKIES_FILE W"
  by (simp add: cookiesFile_v2_def COOKIES_FILE_def)

lemma no_cookies_in_base:
  "''--cookies'' \<notin> set commonBase" "''--cookies'' \<notin> set commonBase_v2"
  by (simp_all add: commonBase_def commonBase_v2_def userAgent_def)

lemma selector_not_cookies: "fmt \<in> set formatsToTry \<Longrightarrow> fmt \<noteq> ''--cookies''"
  by (auto simp: formatsToTry_def)

lemma videoUrl_not_cookies: "videoUrl idParam \<noteq> ''--cookies''"
proof -
  have "take 1 (videoUrl idParam) = ''h''"
  proof (cases "isVideoId idParam \<or> \<not> startsWith idParam ''http''")
    case True
    then have "videoUrl idParam = watchPrefix @ idParam" by (auto simp: videoUrl_def)
    then show ?thesis by (simp add: watchPrefix_def)
  next
    case False
    then have v: "videoUrl idParam = idParam" and "take 4 idParam = ''http''"
      by (auto simp: videoUrl_def startsWith_http)
    then have "take 1 (take 4 idParam) = ''h''" by simp
    then show ?thesis unfolding v by (simp add: min_def)
  qed
  then show ?thesis by auto
qed

lemma cookies_in_args:
  assumes "fmt \<in> set formatsToTry"
  shows "(''--cookies'' \<in> set (ytdlArgs fmt args (videoUrl idParam))) =
           (''--cookies'' \<in> set args)"
  using selector_not_cookies [OF assms] videoUrl_not_cookies [of idParam]
  by (auto simp: ytdlArgs_def)

lemma extractionArgs_append:
  "extractionArgs (xs @ ys) = extractionArgs xs @ extractionArgs ys"
  by (induction xs rule: extractionArgs.induct) auto

lemma extractionArgs_pipeline:
  "extractionArgs (spawnPipeline c fmt) = [ytdlArgs fmt (common c) (url c)]"
  by (simp add: spawnPipeline_def ytdlArgs_def ffmpegArgs_def)

lemma extractionArgs_serve: "extractionArgs (serve W p name) = []"
  by (simp add: serve_def scheduleDelete_def split: sendResult.splits)

lemma attempt_extraction:
  "extractionArgs (trace (snd (attempt W c fmt r))) =
     extractionArgs (trace r) @ [ytdlArgs fmt (common c) (url c)]"
  "attemptedFormats (trace (snd (attempt W c fmt r))) = attemptedFormats (trace r) @ [fmt]"
  by (simp_all add: attempt_trace extractionArgs_append extractionArgs_pipeline
      extractionArgs_serve attemptedFormats_append)

lemma loop_extraction:
  assumes "extractionArgs (trace r) =
             map (\<lambda>f. ytdlArgs f (common c) (url c)) (attemptedFormats (trace r))"
    and "set (attemptedFormats (trace r)) \<subseteq> S"
  shows "extractionArgs (trace (formatsLoop W c conv fmts r)) =
           map (\<lambda>f. ytdlArgs f (common c) (url c))
             (attemptedFormats (trace (formatsLoop W c conv fmts r)))
       \<and> set (attemptedFormats (trace (formatsLoop W c conv fmts r))) \<subseteq> S \<union> set fmts"
  using assms
proof (induction fmts arbitrary: r conv S)
  case Nil
  then show ?case
    by (simp add: afterLoop_trace extractionArgs_append attemptedFormats_append)
next
  case (Cons fmt fmts)
  obtain ok r' where a: "attempt W c fmt r = (ok, r')" by (cases "attempt W c fmt r")
  have e: "extractionArgs (trace r') =
             map (\<lambda>f. ytdlArgs f (common c) (url c)) (attemptedFormats (trace r'))"
    using a attempt_extraction [of W c fmt r] Cons.prems(1) by simp
  have u: "set (attemptedFormats (trace r')) \<subseteq> insert fmt S"
    using a attempt_extraction(2) [of W c fmt r] Cons.prems(2) by auto
  show ?case
  proof (cases conv)
    case True
    then show ?thesis
      using Cons.prems
      by (auto simp: afterLoop_trace extractionArgs_append attemptedFormats_append)
  next
    case False
    show ?thesis
    proof (cases ok)
      case True
      then show ?thesis using a e u False by auto
    next
      case no: False
      then show ?thesis using a False Cons.IH [OF e u, of False] by auto
    qed
  qed
qed

lemma routeWith_extraction:
  "extractionArgs (trace (routeWith c W fs idParam)) =
     map (\<lambda>f. ytdlArgs f (common c) (url c))
       (attemptedFormats (trace (routeWith c W fs idParam)))
   \<and> set (attemptedFormats (trace (routeWith c W fs idParam))) \<subseteq> set formatsToTry"
proof -
  let ?r0 = "\<lparr>trace = [Spawn ''yt-dlp'' (metaArgs (url c))], disk = fs, finalErrorText = []\<rparr>"
  have e: "extractionArgs (trace ?r0) =
             map (\<lambda>f. ytdlArgs f (common c) (url c)) (attemptedFormats (trace ?r0))"
    by (simp add: metaArgs_def)
  have u: "set (attemptedFormats (trace ?r0)) \<subseteq> {}" by (simp add: metaArgs_def)
  show ?thesis
    using loop_extraction [OF e u, of W False formatsToTry]
    by (simp add: routeWith_def Let_def extractionArgs_append attemptedFormats_append
        extractionArgs_serve metaArgs_def)
qed

lemma routeWith_attempted:
  assumes "idParam \<noteq> []" and "\<not> existsSync fs (outPath c)"
  shows "attemptedFormats (trace (routeWith c W fs idParam)) =
           take (Suc (failuresBeforeSuccess W formatsToTry)) formatsToTry"
proof -
  let ?r0 = "\<lparr>trace = [Spawn ''yt-dlp'' (metaArgs (url c))], disk = fs, finalErrorText = []\<rparr>"
  have d: "outPath c \<notin> disk ?r0" using assms(2) by (simp add: existsSync_def)
  show ?thesis
    unfolding routeWith_loop [OF assms]
    using loop_attempted [OF d, of W formatsToTry] by (simp add: metaArgs_def)
qed

text \<open>
  C10. For every selector of the loop, the argument list of the extraction tool contains
  \<open>--cookies\<close> exactly when the value of USE_COOKIES, an unset one taken as empty, is
  \<open>true\<close> in lower case and the cookies file, joined to the directory of the program,
  exists when the request is handled. Then \<open>--cookies\<close> and the cookies file are the last
  two of the common arguments; otherwise the argument list is the one built from the
  common arguments as they are written. This is the list that the handler hands to
  \<open>spawn\<close>: every extraction process that a request starts for a selector gets exactly
  this list, so all of them carry \<open>--cookies\<close> or none does. This holds for part_002 and
  for the revision kept in src/Dockerfile, each with its own common arguments.
\<close>

theorem cookies_gate:
  fixes W :: world and q :: string and fs :: files
  assumes "fmt \<in> set formatsToTry"
  defines "g \<equiv> toLowerCase (orElse (USE_COOKIES W) []) = ''true''
                 \<and> existsSync fs (path_join W (dirname W) (COOKIES_FILE W))"
  shows "(''--cookies'' \<in> set (ytdlArgs fmt (common (requestCtx W fs q idParam)) (videoUrl idParam))) = g
       \<and> ytdlArgs fmt (common (requestCtx W fs q idParam)) (videoUrl idParam) =
           (if g
            then [''-f'', fmt, ''-o'', ''-''] @ commonBase @ [''--cookies'', COOKIES_FILE W]
                 @ [videoUrl idParam]
            else [''-f'', fmt, ''-o'', ''-''] @ commonBase @ [videoUrl idParam])
       \<and> (''--cookies'' \<in> set (ytdlArgs fmt (common (requestCtx_v2 W fs q idParam)) (videoUrl idParam))) = g
       \<and> ytdlArgs fmt (common (requestCtx_v2 W fs q idParam)) (videoUrl idParam) =
           (if g
            then [''-f'', fmt, ''-o'', ''-''] @ commonBase_v2 @ [''--cookies'', COOKIES_FILE W]
                 @ [videoUrl idParam]
            else [''-f'', fmt, ''-o'', ''-''] @ commonBase_v2 @ [videoUrl idParam])
       \<and> extractionArgs (spawnPipeline (requestCtx W fs q idParam) fmt) =
           [[''-f'', fmt, ''-o'', ''-''] @ commonBase
            @ (if g then [''--cookies'', COOKIES_FILE W] else []) @ [videoUrl idParam]]
       \<and> extractionArgs (spawnPipeline (requestCtx_v2 W fs q idParam) fmt) =
           [[''-f'', fmt, ''-o'', ''-''] @ commonBase_v2
            @ (if g then [''--cookies'', COOKIES_FILE W] else []) @ [videoUrl idParam]]
       \<and> extractionArgs (trace (route W fs q idParam)) =
           map (\<lambda>f. [''-f'', f, ''-o'', ''-''] @ commonBase
                     @ (if g then [''--cookies'', COOKIES_FILE W] else []) @ [videoUrl idParam])
             (attemptedFormats (trace (route W fs q idParam)))
       \<and> extractionArgs (trace (route_v2 W fs q idParam)) =
           map (\<lambda>f. [''-f'', f, ''-o'', ''-''] @ commonBase_v2
                     @ (if g then [''--cookies'', COOKIES_FILE W] else []) @ [videoUrl idParam])
             (attemptedFormats (trace (route_v2 W fs q idParam)))
       \<and> list_all (\<lambda>args. (''--cookies'' \<in> set args) = g)
           (extractionArgs (trace (route W fs q idParam)))
       \<and> list_all (\<lambda>args. (''--cookies'' \<in> set args) = g)
           (extractionArgs (trace (route_v2 W fs q idParam)))"
proof -
  have c: "common (requestCtx W fs q idParam) =
             (if g then commonBase @ [''--cookies'', COOKIES_FILE W] else commonBase)"
    by (simp add: g_def requestCtx_def commonYtdlArgs_def useCookies_def cookiesPath_eq)
  have c2: "common (requestCtx_v2 W fs q idParam) =
             (if g then commonBase_v2 @ [''--cookies'', COOKIES_FILE W] else commonBase_v2)"
    by (simp add: g_def requestCtx_v2_def commonYtdlArgs_v2_def useCookies_def cookiesFile_v2_eq)
  have u: "url (requestCtx W fs q idParam) = videoUrl idParam"
    "url (requestCtx_v2 W fs q idParam) = videoUrl idParam"
    by (simp_all add: requestCtx_def requestCtx_v2_def)
  have m: "\<And>f. f \<in> set formatsToTry \<Longrightarrow>
      (''--cookies'' \<in> set (ytdlArgs f (common (requestCtx W fs q idParam)) (videoUrl idParam))) = g"
    unfolding c using cookies_in_args no_cookies_in_base by simp
  have m2: "\<And>f. f \<in> set formatsToTry \<Longrightarrow>
      (''--cookies'' \<in> set (ytdlArgs f (common (requestCtx_v2 W fs q idParam)) (videoUrl idParam))) = g"
    unfolding c2 using cookies_in_args no_cookies_in_base by simp
  have a: "\<And>f. ytdlArgs f (common (requestCtx W fs q idParam)) (videoUrl idParam) =
             [''-f'', f, ''-o'', ''-''] @ commonBase
             @ (if g then [''--cookies'', COOKIES_FILE W] else []) @ [videoUrl idParam]"
    unfolding c by (simp add: ytdlArgs_def)
  have a2: "\<And>f. ytdlArgs f (common (requestCtx_v2 W fs q idParam)) (videoUrl idParam) =
             [''-f'', f, ''-o'', ''-''] @ commonBase_v2
             @ (if g then [''--cookies'', COOKIES_FILE W] else []) @ [videoUrl idParam]"
    unfolding c2 by (simp add: ytdlArgs_def)
  have 3: "ytdlArgs fmt (common (requestCtx W fs q idParam)) (videoUrl idParam) =
           (if g
            then [''-f'', fmt, ''-o'', ''-''] @ commonBase @ [''--cookies'', COOKIES_FILE W]
                 @ [videoUrl idParam]
            else [''-f'', fmt, ''-o'', ''-''] @ commonBase @ [videoUrl idParam])"
    unfolding a by simp
  have 4: "ytdlArgs fmt (common (requestCtx_v2 W fs q idParam)) (videoUrl idParam) =
           (if g
            then [''-f'', fmt, ''-o'', ''-''] @ commonBase_v2 @ [''--cookies'', COOKIES_FILE W]
                 @ [videoUrl idParam]
            else [''-f'', fmt, ''-o'', ''-''] @ commonBase_v2 @ [videoUrl idParam])"
    unfolding a2 by simp
  have 5: "extractionArgs (spawnPipeline (requestCtx W fs q idParam) fmt) =
           [[''-f'', fmt, ''-o'', ''-''] @ commonBase
            @ (if g then [''--cookies'', COOKIES_FILE W] else []) @ [videoUrl idParam]]"
    unfolding extractionArgs_pipeline u a by (rule refl)
  have 6: "extractionArgs (spawnPipeline (requestCtx_v2 W fs q idParam) fmt) =
           [[''-f'', fmt, ''-o'', ''-''] @ commonBase_v2
            @ (if g then [''--cookies'', COOKIES_FILE W] else []) @ [videoUrl idParam]]"
    unfolding extractionArgs_pipeline u a2 by (rule refl)
  note x = routeWith_extraction [of "requestCtx W fs q idParam" W fs idParam,
      unfolded u, folded route_def]
  note x2 = routeWith_extraction [of "requestCtx_v2 W fs q idParam" W fs idParam,
      unfolded u, folded route_v2_def]
  have 7: "extractionArgs (trace (route W fs q idParam)) =
           map (\<lambda>f. [''-f'', f, ''-o'', ''-''] @ commonBase
                     @ (if g then [''--cookies'', COOKIES_FILE W] else []) @ [videoUrl idParam])
             (attemptedFormats (trace (route W fs q idParam)))"
    using x [THEN conjunct1] unfolding a .
  have 8: "extractionArgs (trace (route_v2 W fs q idParam)) =
           map (\<lambda>f. [''-f'', f, ''-o'', ''-''] @ commonBase_v2
                     @ (if g then [''--cookies'', COOKIES_FILE W] else []) @ [videoUrl idParam])
             (attemptedFormats (trace (route_v2 W fs q idParam)))"
    using x2 [THEN conjunct1] unfolding a2 .
  have 9: "list_all (\<lambda>args. (''--cookies'' \<in> set args) = g)
           (extractionArgs (trace (route W fs q idParam)))"
    unfolding x [THEN conjunct1] using x [THEN conjunct2] m
    by (auto simp: list_all_iff)
  have 10: "list_all (\<lambda>args. (''--cookies'' \<in> set args) = g)
           (extractionArgs (trace (route_v2 W fs q idParam)))"
    unfolding x2 [THEN conjunct1] using x2 [THEN conjunct2] m2
    by (auto simp: list_all_iff)
  show ?thesis
    using m [OF assms(1)] m2 [OF assms(1)] 3 4 5 6 7 8 9 10 by blast
qed

theorem cookies_gate_witness:
  "''bestaudio'' \<in> set formatsToTry
   \<and> ''--cookies'' \<in> set (ytdlArgs ''bestaudio''
        (common (requestCtx cookieWorld {''/app/./cookies.txt''} ''high'' exampleId))
        (videoUrl exampleId))
   \<and> ''--cookies'' \<notin> set (ytdlArgs ''bestaudio''
        (common (requestCtx cookieWorld {} ''high'' exampleId)) (videoUrl exampleId))
   \<and> ''--cookies'' \<notin> set (ytdlArgs ''bestaudio''
        (common (requestCtx exampleWorld {''/app/./cookies.txt''} ''high'' exampleId))
        (videoUrl exampleId))
   \<and> length (extractionArgs (trace (route cookieWorld {''/app/./cookies.txt''} ''high'' exampleId))) = 3
   \<and> list_all (\<lambda>args. ''--cookies'' \<in> set args)
        (extractionArgs (trace (route cookieWorld {''/app/./cookies.txt''} ''high'' exampleId)))
   \<and> length (extractionArgs (trace (route cookieWorld {} ''high'' exampleId))) = 3
   \<and> list_all (\<lambda>args. ''--cookies'' \<notin> set args)
        (extractionArgs (trace (route cookieWorld {} ''high'' exampleId)))"
proof -
  have f: "''bestaudio'' \<in> set formatsToTry" by (simp add: formatsToTry_def)
  have n: "exampleId \<noteq> []" by (simp add: exampleId_def)
  have w: "USE_COOKIES cookieWorld = Some ''TRUE''" "COOKIES_FILE cookieWorld = ''./cookies.txt''"
    "path_join cookieWorld = joinPaths" "dirname cookieWorld = ''/app''"
    "pipeline cookieWorld = thirdSucceeds" "now cookieWorld = 1700000000000"
    by (simp_all add: cookieWorld_def exampleWorld_def COOKIES_FILE_def orElse_def)
  have st: "safeTitle cookieWorld = None"
    by (simp add: safeTitle_def fetchMetadata_def titleFrom_def onMetaClose_def cookieWorld_def
        exampleWorld_def)
  have l: "toLowerCase (orElse (Some ''TRUE'') []) = ''true''"
    by (simp add: orElse_def toLowerCase_def toLowerChar_def upperAZ_def lowerAZ_def)
  have e: "toLowerCase (orElse (USE_COOKIES exampleWorld) []) \<noteq> ''true''"
    by (simp add: exampleWorld_simps orElse_def toLowerCase_def)
  have p: "\<And>fs. outPath (requestCtx cookieWorld fs ''high'' exampleId) = examplePath"
    by (simp add: requestCtx_def st filePath_def filename_def base_def idBase_def DOWNLOAD_DIR_def
        w isVideoId_example qualityKey_high showInt_example joinPaths_def)
       (simp add: exampleId_def examplePath_def)
  have k: "failuresBeforeSuccess cookieWorld formatsToTry = 2"
    by (simp add: failuresBeforeSuccess_def formatsToTry_def w thirdSucceeds_def
        pipelineOk_def okOutcome_def failedOutcome_def)
  have t: "\<And>fs. examplePath \<notin> fs \<Longrightarrow>
      length (attemptedFormats (trace (route cookieWorld fs ''high'' exampleId))) = 3"
  proof -
    fix fs :: files
    assume "examplePath \<notin> fs"
    then have m: "\<not> existsSync fs (outPath (requestCtx cookieWorld fs ''high'' exampleId))"
      by (simp add: p existsSync_def)
    show "length (attemptedFormats (trace (route cookieWorld fs ''high'' exampleId))) = 3"
      unfolding route_def routeWith_attempted [OF n m] k by (simp add: formatsToTry_def)
  qed
  have x: "examplePath \<notin> {''/app/./cookies.txt''}" "examplePath \<notin> {}"
    by (simp_all add: examplePath_def)
  note g1 = cookies_gate [OF f, of cookieWorld "{''/app/./cookies.txt''}" "''high''" exampleId]
  note g2 = cookies_gate [OF f, of cookieWorld "{}" "''high''" exampleId]
  note g3 = cookies_gate [OF f, of exampleWorld "{''/app/./cookies.txt''}" "''high''" exampleId]
  have c1: "toLowerCase (orElse (USE_COOKIES cookieWorld) []) = ''true''
            \<and> existsSync {''/app/./cookies.txt''}
                (path_join cookieWorld (dirname cookieWorld) (COOKIES_FILE cookieWorld))"
    by (simp add: w l existsSync_def joinPaths_def)
  have c2: "\<not> (toLowerCase (orElse (USE_COOKIES cookieWorld) []) = ''true''
            \<and> existsSync {}
                (path_join cookieWorld (dirname cookieWorld) (COOKIES_FILE cookieWorld)))"
    by (simp add: existsSync_def)
  have 1: "''--cookies'' \<in> set (ytdlArgs ''bestaudio''
        (common (requestCtx cookieWorld {''/app/./cookies.txt''} ''high'' exampleId))
        (videoUrl exampleId))"
    using g1 c1 by blast
  have 2: "''--cookies'' \<notin> set (ytdlArgs ''bestaudio''
        (common (requestCtx cookieWorld {} ''high'' exampleId)) (videoUrl exampleId))"
    using g2 c2 by blast
  have 3: "''--cookies'' \<notin> set (ytdlArgs ''bestaudio''
        (common (requestCtx exampleWorld {''/app/./cookies.txt''} ''high'' exampleId))
        (videoUrl exampleId))"
    using g3 e by blast
  have 4: "length (extractionArgs (trace (route cookieWorld {''/app/./cookies.txt''} ''high'' exampleId))) = 3"
    using g1 t [OF x(1)] by simp
  have 5: "list_all (\<lambda>args. ''--cookies'' \<in> set args)
        (extractionArgs (trace (route cookieWorld {''/app/./cookies.txt''} ''high'' exampleId)))"
    using g1 c1 by (simp add: list_all_iff)
  have 6: "length (extractionArgs (trace (route cookieWorld {} ''high'' exampleId))) = 3"
    using g2 t [OF x(2)] by simp
  have 7: "list_all (\<lambda>args. ''--cookies'' \<notin> set args)
        (extractionArgs (trace (route cookieWorld {} ''high'' exampleId)))"
    using g2 c2 by (simp add: list_all_iff)
  show ?thesis using f 1 2 3 4 5 6 7 by blast
qed

end
